theory Spec2Isabelle
  imports Complex_Main "HOL-Library.Char_ord" "HOL-Library.List_Lexorder"
begin

section \<open>JavaScript values\<close>

text \<open>
  The values the tracker handles: what \<open>JSON.parse\<close> returns, what a CSV cell holds,
  what \<open>parseInt\<close> yields. Strings are lists of \<open>char\<close>, so their characters are
  those below U+0100. Numbers are the integers (\<open>parseInt\<close> and the counters of the
  application produce nothing else) together with \<open>NaN\<close>. An object is the list of its
  own enumerable properties in the order \<open>Object.entries\<close> enumerates them.

  The engine's numbers are doubles. \<open>Num n\<close> is the double of value \<open>n\<close>, and the model is
  exact where \<open>n\<close> is a safe integer, of magnitude at most \<open>2^53 - 1\<close>: there
  \<open>String\<close> and \<open>JSON.stringify\<close> print the decimal digits and \<open>parseInt\<close> and
  \<open>JSON.parse\<close> read them back. Beyond the safe integers the engine rounds, and from
  \<open>10^21\<close> on it prints an exponent; the model does neither, so whatever is proved here
  about a number is proved of a safe integer (\<open>safe_int\<close>). In the same way the engine
  enumerates the properties whose names are array indices first, in ascending order, and
  the others in the order of their creation; the model keeps the order of creation, so
  whatever is proved here about the order of properties is proved of names that are not
  array indices (\<open>array_index\<close>).
\<close>

datatype jsval =
    Undefined
  | Null
  | Bool bool
  | Num int
  | NaN
  | Str string
  | Arr "jsval list"
  | Obj "(string \<times> jsval) list"

abbreviation dquote :: char where "dquote \<equiv> CHR 0x22"
abbreviation comma :: char where "comma \<equiv> CHR 0x2C"
abbreviation newline :: char where "newline \<equiv> CHR 0x0A"

definition digit_char :: "nat \<Rightarrow> char" where
  "digit_char d = char_of (48 + d)"

function string_of_nat :: "nat \<Rightarrow> string" where
  "string_of_nat n =
     (if n < 10 then [digit_char n]
      else string_of_nat (n div 10) @ [digit_char (n mod 10)])"
  by pat_completeness auto
termination
  by (relation "measure id") auto

declare string_of_nat.simps [simp del]

definition string_of_int :: "int \<Rightarrow> string" where
  "string_of_int i =
     (if i < 0 then CHR ''-'' # string_of_nat (nat (- i)) else string_of_nat (nat i))"

fun intercalate :: "'a list \<Rightarrow> 'a list list \<Rightarrow> 'a list" where
  "intercalate sep [] = []"
| "intercalate sep [x] = x"
| "intercalate sep (x # y # ys) = x @ sep @ intercalate sep (y # ys)"

text \<open>\<open>String(value)\<close>: an array prints its elements joined by commas, with \<open>null\<close> and
  \<open>undefined\<close> elements empty; any other object prints as \<open>[object Object]\<close>.\<close>

fun to_string :: "jsval \<Rightarrow> string" where
  "to_string Undefined = ''undefined''"
| "to_string Null = ''null''"
| "to_string (Bool b) = (if b then ''true'' else ''false'')"
| "to_string (Num n) = string_of_int n"
| "to_string NaN = ''NaN''"
| "to_string (Str s) = s"
| "to_string (Arr xs) =
     intercalate '','' (map (\<lambda>x. if x = Null \<or> x = Undefined then [] else to_string x) xs)"
| "to_string (Obj ps) = ''[object Object]''"

section \<open>The CSV codec: fields\<close>

text \<open>\<open>escapeCSV\<close> of \<open>convertDataToCSV\<close>.\<close>

definition double_quotes :: "string \<Rightarrow> string" where
  "double_quotes s = concat (map (\<lambda>c. if c = dquote then [dquote, dquote] else [c]) s)"

definition escapeCSV :: "jsval \<Rightarrow> string" where
  "escapeCSV v =
     (if v = Null \<or> v = Undefined then []
      else let stringValue = to_string v in
        if comma \<in> set stringValue \<or> dquote \<in> set stringValue \<or> newline \<in> set stringValue
        then [dquote] @ double_quotes stringValue @ [dquote]
        else stringValue)"

text \<open>\<open>parseCSVRow\<close>: the loop over the index \<open>i\<close> is a recursion over the characters
  not yet read; \<open>insideQuotes\<close>, \<open>currentValue\<close> and \<open>result\<close> are its other variables.\<close>

fun parseCSVRow_loop :: "string \<Rightarrow> bool \<Rightarrow> string \<Rightarrow> string list \<Rightarrow> string list" where
  "parseCSVRow_loop [] insideQuotes currentValue result = result @ [currentValue]"
| "parseCSVRow_loop (c # cs) insideQuotes currentValue result =
     (if c = dquote then
        (case cs of
           [] \<Rightarrow> parseCSVRow_loop cs (\<not> insideQuotes) currentValue result
         | c' # cs' \<Rightarrow>
             if c' = dquote then parseCSVRow_loop cs' insideQuotes (currentValue @ [dquote]) result
             else parseCSVRow_loop cs (\<not> insideQuotes) currentValue result)
      else if c = comma \<and> \<not> insideQuotes then parseCSVRow_loop cs insideQuotes [] (result @ [currentValue])
      else parseCSVRow_loop cs insideQuotes (currentValue @ [c]) result)"

definition parseCSVRow :: "string \<Rightarrow> string list" where
  "parseCSVRow row = parseCSVRow_loop row False [] []"

section \<open>JavaScript objects and conversions\<close>

text \<open>An own property is defined in place when the key exists and appended otherwise.\<close>

fun put :: "string \<Rightarrow> 'v \<Rightarrow> (string \<times> 'v) list \<Rightarrow> (string \<times> 'v) list" where
  "put k v [] = [(k, v)]"
| "put k v (p # ps) = (if fst p = k then (k, v) # ps else p # put k v ps)"

text \<open>The property names every plain object inherits from \<open>Object.prototype\<close>: reading one
  of them on an object that has no own property of that name yields a function (or, for
  \<open>__proto__\<close>, the prototype), which is truthy.\<close>

definition object_prototype_names :: "string list" where
  "object_prototype_names =
     [''constructor'', ''__defineGetter__'', ''__defineSetter__'', ''hasOwnProperty'',
      ''__lookupGetter__'', ''__lookupSetter__'', ''isPrototypeOf'', ''propertyIsEnumerable'',
      ''toString'', ''valueOf'', ''__proto__'', ''toLocaleString'']"

definition inherited :: "string \<Rightarrow> bool" where
  "inherited k = (k \<in> set object_prototype_names)"

text \<open>\<open>obj[k] = v\<close> on a plain object: assigning to \<open>__proto__\<close> goes to the inherited
  setter and creates no own property.\<close>

definition js_assign :: "string \<Rightarrow> 'v \<Rightarrow> (string \<times> 'v) list \<Rightarrow> (string \<times> 'v) list" where
  "js_assign k v ps = (if k = ''__proto__'' then ps else put k v ps)"

fun js_truthy :: "jsval \<Rightarrow> bool" where
  "js_truthy Undefined = False"
| "js_truthy Null = False"
| "js_truthy (Bool b) = b"
| "js_truthy (Num n) = (n \<noteq> 0)"
| "js_truthy NaN = False"
| "js_truthy (Str s) = (s \<noteq> [])"
| "js_truthy (Arr xs) = True"
| "js_truthy (Obj ps) = True"

datatype js_error =
    DOMException string int
  | Error string
  | TypeError
  | SyntaxError

fun error_name :: "js_error \<Rightarrow> string" where
  "error_name (DOMException n c) = n"
| "error_name (Error m) = ''Error''"
| "error_name TypeError = ''TypeError''"
| "error_name SyntaxError = ''SyntaxError''"

fun error_code :: "js_error \<Rightarrow> int option" where
  "error_code (DOMException n c) = Some c"
| "error_code e = None"

text \<open>The message of an error the engine raises is the engine's own text; the model
  shows the error's name in its place.\<close>

fun error_message :: "js_error \<Rightarrow> string" where
  "error_message (DOMException n c) = n"
| "error_message (Error m) = m"
| "error_message TypeError = ''TypeError''"
| "error_message SyntaxError = ''SyntaxError''"

text \<open>Reading \<open>v.name\<close> for one of the names the tracker reads (none of them is inherited):
  a \<open>TypeError\<close> on \<open>null\<close> and \<open>undefined\<close>, the own property of an object, and
  \<open>undefined\<close> on anything else.\<close>

fun member :: "jsval \<Rightarrow> string \<Rightarrow> js_error + jsval" where
  "member Undefined k = Inl TypeError"
| "member Null k = Inl TypeError"
| "member (Obj ps) k = Inr (case map_of ps k of None \<Rightarrow> Undefined | Some v \<Rightarrow> v)"
| "member v k = Inr Undefined"

definition indices :: "nat \<Rightarrow> string list" where
  "indices n = map string_of_nat [0..<n]"

text \<open>\<open>Object.keys\<close> and \<open>Object.entries\<close>: a \<open>TypeError\<close> on \<open>null\<close> and
  \<open>undefined\<close>; the indices of an array or of a string; nothing for a number or a boolean.\<close>

fun object_entries :: "jsval \<Rightarrow> js_error + (string \<times> jsval) list" where
  "object_entries Undefined = Inl TypeError"
| "object_entries Null = Inl TypeError"
| "object_entries (Obj ps) = Inr ps"
| "object_entries (Arr xs) = Inr (zip (indices (length xs)) xs)"
| "object_entries (Str s) = Inr (zip (indices (length s)) (map (\<lambda>c. Str [c]) s))"
| "object_entries v = Inr []"

definition object_keys :: "jsval \<Rightarrow> js_error + string list" where
  "object_keys v = (case object_entries v of Inl e \<Rightarrow> Inl e | Inr ps \<Rightarrow> Inr (map fst ps))"

text \<open>\<open>delete v[k]\<close>: an own property of an object goes; an element of an array becomes
  a hole, which reads as \<open>undefined\<close>; a string keeps its characters (the script is not in
  strict mode, so nothing is thrown).\<close>

definition index_of :: "string \<Rightarrow> nat \<Rightarrow> nat option" where
  "index_of k n = map_of (zip (indices n) [0..<n]) k"

fun delete_property :: "string \<Rightarrow> jsval \<Rightarrow> jsval" where
  "delete_property k (Obj ps) = Obj (filter (\<lambda>p. fst p \<noteq> k) ps)"
| "delete_property k (Arr xs) =
     (case index_of k (length xs) of None \<Rightarrow> Arr xs | Some i \<Rightarrow> Arr (xs[i := Undefined]))"
| "delete_property k v = v"

definition is_digit :: "char \<Rightarrow> bool" where
  "is_digit c = (CHR ''0'' \<le> c \<and> c \<le> CHR ''9'')"

definition digit_val :: "char \<Rightarrow> nat" where
  "digit_val c = of_char c - 48"

definition nat_of_digits :: "string \<Rightarrow> nat" where
  "nat_of_digits ds = foldl (\<lambda>a c. 10 * a + digit_val c) 0 ds"



definition hex_val :: "char \<Rightarrow> nat option" where
  "hex_val c =
     (if CHR ''0'' \<le> c \<and> c \<le> CHR ''9'' then Some (of_char c - 48)
      else if CHR ''a'' \<le> c \<and> c \<le> CHR ''f'' then Some (of_char c - 87)
      else if CHR ''A'' \<le> c \<and> c \<le> CHR ''F'' then Some (of_char c - 55)
      else None)"

definition is_hex :: "char \<Rightarrow> bool" where
  "is_hex c = (hex_val c \<noteq> None)"

definition nat_of_hex :: "string \<Rightarrow> nat" where
  "nat_of_hex ds = foldl (\<lambda>a c. 16 * a + the (hex_val c)) 0 ds"

text \<open>White space as \<open>parseInt\<close> and \<open>trim\<close> see it, among the characters of the model.\<close>

definition js_white :: "char \<Rightarrow> bool" where
  "js_white c = (c = CHR 0x09 \<or> c = CHR 0x0A \<or> c = CHR 0x0B \<or> c = CHR 0x0C \<or> c = CHR 0x0D
                 \<or> c = CHR 0x20 \<or> c = CHR 0xA0)"

text \<open>\<open>parseInt(v)\<close>: the argument is converted to a string; leading white space and a
  sign are skipped; a \<open>0x\<close> prefix selects base 16; the longest run of digits is read, and
  there being none gives \<open>NaN\<close>.\<close>

definition parseInt_digits :: "string \<Rightarrow> int option" where
  "parseInt_digits s =
     (if take 2 s = ''0x'' \<or> take 2 s = ''0X''
      then (let ds = takeWhile is_hex (drop 2 s)
            in if ds = [] then None else Some (int (nat_of_hex ds)))
      else (let ds = takeWhile is_digit s
            in if ds = [] then None else Some (int (nat_of_digits ds))))"

definition parseInt :: "jsval \<Rightarrow> jsval" where
  "parseInt v =
     (let s = dropWhile js_white (to_string v);
          negative = (s \<noteq> [] \<and> hd s = CHR ''-'');
          body = (if s \<noteq> [] \<and> (hd s = CHR ''-'' \<or> hd s = CHR ''+'') then tl s else s)
      in case parseInt_digits body of
           None \<Rightarrow> NaN
         | Some n \<Rightarrow> Num (if negative then - n else n))"

section \<open>JSON\<close>

abbreviation bslash :: char where "bslash \<equiv> CHR 0x5C"

definition hex_char :: "nat \<Rightarrow> char" where
  "hex_char d = (if d < 10 then char_of (48 + d) else char_of (87 + d))"

definition json_escape :: "char \<Rightarrow> string" where
  "json_escape c =
     (if c = dquote then [bslash, dquote]
      else if c = bslash then [bslash, bslash]
      else if c = CHR 0x08 then [bslash, CHR ''b'']
      else if c = CHR 0x0C then [bslash, CHR ''f'']
      else if c = CHR 0x0A then [bslash, CHR ''n'']
      else if c = CHR 0x0D then [bslash, CHR ''r'']
      else if c = CHR 0x09 then [bslash, CHR ''t'']
      else if (of_char c :: nat) < 32
        then [bslash, CHR ''u'', CHR ''0'', CHR ''0'',
              hex_char ((of_char c :: nat) div 16), hex_char ((of_char c :: nat) mod 16)]
      else [c])"

definition json_quote :: "string \<Rightarrow> string" where
  "json_quote s = dquote # concat (map json_escape s) @ [dquote]"

text \<open>\<open>JSON.stringify\<close> of an array or an object: no white space; \<open>NaN\<close> and array
  holes print as \<open>null\<close>; a property whose value is \<open>undefined\<close> is left out.\<close>

fun JSON_stringify :: "jsval \<Rightarrow> string" where
  "JSON_stringify Undefined = ''null''"
| "JSON_stringify Null = ''null''"
| "JSON_stringify (Bool b) = (if b then ''true'' else ''false'')"
| "JSON_stringify (Num n) = string_of_int n"
| "JSON_stringify NaN = ''null''"
| "JSON_stringify (Str s) = json_quote s"
| "JSON_stringify (Arr xs) = ''['' @ intercalate '','' (map JSON_stringify xs) @ '']''"
| "JSON_stringify (Obj ps) =
     ''{'' @ intercalate '',''
              (map (\<lambda>p. json_quote (fst p) @ '':'' @ JSON_stringify (snd p))
                   (filter (\<lambda>p. snd p \<noteq> Undefined) ps)) @ ''}''"

text \<open>
  \<open>JSON.parse\<close>, for the texts whose numbers are integers and whose \<open>\u\<close> escapes name a
  character of the model; any other text is refused, as a text that is not JSON is. The
  model accepts no text that the engine refuses; a text with a fraction, an exponent or a
  character from U+0100 on is outside the model, so whatever is proved here about the
  value of a stored text is proved of a text the model reads. The parser descends with a
  budget of calls, which \<open>JSON_parse\<close> sets to the length of the text: every call reads
  at least one character.
\<close>

definition is_ws :: "char \<Rightarrow> bool" where
  "is_ws c = (c = CHR 0x20 \<or> c = CHR 0x09 \<or> c = CHR 0x0A \<or> c = CHR 0x0D)"

definition skip_ws :: "string \<Rightarrow> string" where
  "skip_ws s = dropWhile is_ws s"

definition simple_escape :: "char \<Rightarrow> char option" where
  "simple_escape e =
     (if e = dquote then Some dquote
      else if e = bslash then Some bslash
      else if e = CHR ''/'' then Some (CHR ''/'')
      else if e = CHR ''b'' then Some (CHR 0x08)
      else if e = CHR ''f'' then Some (CHR 0x0C)
      else if e = CHR ''n'' then Some (CHR 0x0A)
      else if e = CHR ''r'' then Some (CHR 0x0D)
      else if e = CHR ''t'' then Some (CHR 0x09)
      else None)"

definition unicode_escape :: "string \<Rightarrow> char option" where
  "unicode_escape hs =
     (if length hs = 4 \<and> list_all is_hex hs \<and> nat_of_hex hs < 256
      then Some (char_of (nat_of_hex hs)) else None)"

text \<open>The characters of a string literal after its opening quote, and the text after its
  closing quote.\<close>

fun json_string :: "string \<Rightarrow> (string \<times> string) option" where
  "json_string [] = None"
| "json_string (c # cs) =
     (if c = dquote then Some ([], cs)
      else if c = bslash then
        (case cs of
           [] \<Rightarrow> None
         | e # r \<Rightarrow>
             if e = CHR ''u'' then
               (case unicode_escape (take 4 r) of
                  None \<Rightarrow> None
                | Some ch \<Rightarrow> map_option (\<lambda>(str, rest). (ch # str, rest)) (json_string (drop 4 r)))
             else
               (case simple_escape e of
                  None \<Rightarrow> None
                | Some ch \<Rightarrow> map_option (\<lambda>(str, rest). (ch # str, rest)) (json_string r)))
      else if (of_char c :: nat) < 32 then None
      else map_option (\<lambda>(str, rest). (c # str, rest)) (json_string cs))"

definition json_number :: "string \<Rightarrow> (jsval \<times> string) option" where
  "json_number s =
     (let negative = (s \<noteq> [] \<and> hd s = CHR ''-'');
          body = (if negative then tl s else s);
          ds = takeWhile is_digit body;
          rest = dropWhile is_digit body
      in if ds = [] then None
         else if 1 < length ds \<and> hd ds = CHR ''0'' then None
         else if rest \<noteq> [] \<and> (hd rest = CHR ''.'' \<or> hd rest = CHR ''e'' \<or> hd rest = CHR ''E'') then None
         else Some (Num (if negative then - int (nat_of_digits ds) else int (nat_of_digits ds)), rest))"

fun json_value :: "nat \<Rightarrow> string \<Rightarrow> (jsval \<times> string) option"
  and json_elements :: "nat \<Rightarrow> string \<Rightarrow> jsval list \<Rightarrow> (jsval \<times> string) option"
  and json_members :: "nat \<Rightarrow> string \<Rightarrow> (string \<times> jsval) list \<Rightarrow> (jsval \<times> string) option"
where
  "json_value 0 s = None"
| "json_value (Suc n) s =
     (case skip_ws s of
        [] \<Rightarrow> None
      | c # cs \<Rightarrow>
          if c = CHR ''{'' then
            (case skip_ws cs of
               [] \<Rightarrow> None
             | d # ds \<Rightarrow> if d = CHR ''}'' then Some (Obj [], ds) else json_members n cs [])
          else if c = CHR ''['' then
            (case skip_ws cs of
               [] \<Rightarrow> None
             | d # ds \<Rightarrow> if d = CHR '']'' then Some (Arr [], ds) else json_elements n cs [])
          else if c = dquote then map_option (\<lambda>(str, rest). (Str str, rest)) (json_string cs)
          else if take 4 (c # cs) = ''true'' then Some (Bool True, drop 4 (c # cs))
          else if take 5 (c # cs) = ''false'' then Some (Bool False, drop 5 (c # cs))
          else if take 4 (c # cs) = ''null'' then Some (Null, drop 4 (c # cs))
          else json_number (c # cs))"
| "json_elements 0 s acc = None"
| "json_elements (Suc n) s acc =
     (case json_value n s of
        None \<Rightarrow> None
      | Some (v, r) \<Rightarrow>
          (case skip_ws r of
             [] \<Rightarrow> None
           | d # ds \<Rightarrow>
               if d = comma then json_elements n ds (acc @ [v])
               else if d = CHR '']'' then Some (Arr (acc @ [v]), ds)
               else None))"
| "json_members 0 s acc = None"
| "json_members (Suc n) s acc =
     (case skip_ws s of
        [] \<Rightarrow> None
      | q # qs \<Rightarrow>
          if q \<noteq> dquote then None
          else
            (case json_string qs of
               None \<Rightarrow> None
             | Some (k, r1) \<Rightarrow>
                 (case skip_ws r1 of
                    [] \<Rightarrow> None
                  | c # r2 \<Rightarrow>
                      if c \<noteq> CHR '':'' then None
                      else
                        (case json_value n r2 of
                           None \<Rightarrow> None
                         | Some (v, r3) \<Rightarrow>
                             (case skip_ws r3 of
                                [] \<Rightarrow> None
                              | d # ds \<Rightarrow>
                                  if d = comma then json_members n ds (put k v acc)
                                  else if d = CHR ''}'' then Some (Obj (put k v acc), ds)
                                  else None)))))"

definition JSON_parse :: "string \<Rightarrow> js_error + jsval" where
  "JSON_parse s =
     (case json_value (Suc (length s)) s of
        None \<Rightarrow> Inl SyntaxError
      | Some (v, rest) \<Rightarrow> if skip_ws rest = [] then Inr v else Inl SyntaxError)"

section \<open>Browser storage\<close>

text \<open>
  \<open>localStorage\<close>: the stored pairs in the order \<open>key(i)\<close> enumerates them, and the
  room the browser gives them. \<open>setItem\<close> throws a \<open>QuotaExceededError\<close> (code 22) when the
  pairs would no longer fit. Every call of \<open>localStorage.setItem\<close> and of
  \<open>utils.showToast\<close> is recorded, in order.
\<close>

datatype event =
    Wrote string string
  | Refused string string
  | Toast string string

record world =
  items :: "(string \<times> string) list"
  capacity :: nat
  events :: "event list"

definition getItem :: "world \<Rightarrow> string \<Rightarrow> string option" where
  "getItem w k = map_of (items w) k"

definition stored_size :: "(string \<times> string) list \<Rightarrow> nat" where
  "stored_size its = sum_list (map (\<lambda>p. length (fst p) + length (snd p)) its)"

definition setItem :: "string \<Rightarrow> string \<Rightarrow> world \<Rightarrow> js_error option \<times> world" where
  "setItem k v w =
     (let its = put k v (items w)
      in if stored_size its \<le> capacity w
         then (None, w\<lparr>items := its, events := events w @ [Wrote k v]\<rparr>)
         else (Some (DOMException ''QuotaExceededError'' 22), w\<lparr>events := events w @ [Refused k v]\<rparr>))"

definition showToast :: "string \<Rightarrow> string \<Rightarrow> world \<Rightarrow> world" where
  "showToast message type w = w\<lparr>events := events w @ [Toast message type]\<rparr>"

section \<open>The storage manager\<close>

text \<open>\<open>isIOS()\<close> reads the user agent; it is the parameter \<open>ios\<close> of each operation.\<close>

definition getUsage :: "world \<Rightarrow> nat" where
  "getUsage w =
     sum_list (map (\<lambda>key. case getItem w key of
                              None \<Rightarrow> 0
                            | Some value \<Rightarrow>
                                if key \<noteq> [] \<and> value \<noteq> [] then length key + length value else 0)
                   (map fst (items w)))"

definition maxSize :: "bool \<Rightarrow> nat" where
  "maxSize ios = (if ios then 2 * 1024 * 1024 else 5 * 1024 * 1024)"

definition threshold :: "bool \<Rightarrow> real" where
  "threshold ios = (if ios then 0.7 else 0.9)"

definition getRemainingSpace :: "bool \<Rightarrow> world \<Rightarrow> int" where
  "getRemainingSpace ios w = int (maxSize ios) - int (getUsage w)"

text \<open>
  The source compares in double precision. There \<open>5 * 1024 * 1024 * 0.9\<close> is exactly
  4718592 and \<open>2 * 1024 * 1024 * 0.7\<close> is 1468006.3999999999, which lies between the
  same two integers as 1468006.4, so for a usage that is a whole number of characters the
  comparison over the reals decides as the source's does.
\<close>

definition isNearQuota :: "bool \<Rightarrow> world \<Rightarrow> bool" where
  "isNearQuota ios w = (real (getUsage w) > real (maxSize ios) * threshold ios)"

definition daysToKeep :: "bool \<Rightarrow> nat" where
  "daysToKeep ios = (if ios then 30 else 90)"

definition historyKeys :: "string list" where
  "historyKeys = [''history_water'', ''history_protein'', ''workout_history'', ''habits_data'']"

text \<open>The body both branches of \<open>cleanupOldData\<close> share: the keys sorted, and all but the
  last \<open>daysToKeep\<close> of them deleted. \<open>None\<close> when there are not more than \<open>daysToKeep\<close>.\<close>

definition trim_dates :: "nat \<Rightarrow> jsval \<Rightarrow> js_error + jsval option" where
  "trim_dates days history =
     (case object_keys history of
        Inl e \<Rightarrow> Inl e
      | Inr ks \<Rightarrow>
          let dates = sort ks
          in if length dates > days
             then Inr (Some (fold delete_property (take (length dates - days) dates) history))
             else Inr None)"

text \<open>The \<open>forEach\<close> over the habits: the habits as trimmed so far, the flag \<open>cleanedUp\<close>,
  and the error that ended the loop, if one did.\<close>

fun cleanup_habits :: "nat \<Rightarrow> jsval list \<Rightarrow> bool \<Rightarrow> js_error option \<times> jsval list \<times> bool" where
  "cleanup_habits days [] cleanedUp = (None, [], cleanedUp)"
| "cleanup_habits days (habit # rest) cleanedUp =
     (case member habit ''history'' of
        Inl e \<Rightarrow> (Some e, habit # rest, cleanedUp)
      | Inr h \<Rightarrow>
          if js_truthy h then
            (case trim_dates days h of
               Inl e \<Rightarrow> (Some e, habit # rest, cleanedUp)
             | Inr None \<Rightarrow>
                 (case cleanup_habits days rest cleanedUp of
                    (err, rest', c) \<Rightarrow> (err, habit # rest', c))
             | Inr (Some h') \<Rightarrow>
                 (case cleanup_habits days rest True of
                    (err, rest', c) \<Rightarrow>
                      (err, (case habit of Obj ps \<Rightarrow> Obj (put ''history'' h' ps) | _ \<Rightarrow> habit) # rest', c)))
          else
            (case cleanup_habits days rest cleanedUp of
               (err, rest', c) \<Rightarrow> (err, habit # rest', c)))"

text \<open>The branch for a history object: the trimmed object is written back, and
  \<open>cleanedUp\<close> is set once the write has returned.\<close>

definition cleanup_standard :: "bool \<Rightarrow> string \<Rightarrow> jsval \<Rightarrow> world \<Rightarrow> bool \<Rightarrow> world \<times> bool" where
  "cleanup_standard ios key history w cleanedUp =
     (case trim_dates (daysToKeep ios) history of
        Inr (Some history') \<Rightarrow>
          (case setItem key (JSON_stringify history') w of
             (None, w') \<Rightarrow> (w', True)
           | (Some e, w') \<Rightarrow> (w', cleanedUp))
      | _ \<Rightarrow> (w, cleanedUp))"

text \<open>The branch for the habits: every habit's history is trimmed, and the array is
  written back when \<open>cleanedUp\<close> is set, by this key or by an earlier one.\<close>

definition cleanup_habits_data :: "bool \<Rightarrow> string \<Rightarrow> jsval list \<Rightarrow> world \<Rightarrow> bool \<Rightarrow> world \<times> bool" where
  "cleanup_habits_data ios key habits w cleanedUp =
     (case cleanup_habits (daysToKeep ios) habits cleanedUp of
        (Some e, habits', c) \<Rightarrow> (w, c)
      | (None, habits', c) \<Rightarrow>
          if c then (snd (setItem key (JSON_stringify (Arr habits')) w), c) else (w, c))"

text \<open>One round of the \<open>forEach\<close> over \<open>historyKeys\<close>, with its own \<open>try\<close>: whatever is
  thrown inside ends the round and leaves what was done before it.\<close>

definition cleanup_key :: "bool \<Rightarrow> string \<Rightarrow> world \<times> bool \<Rightarrow> world \<times> bool" where
  "cleanup_key ios key wc =
     (let w = fst wc; cleanedUp = snd wc in
      case getItem w key of
        None \<Rightarrow> (w, cleanedUp)
      | Some historyData \<Rightarrow>
          if historyData = [] then (w, cleanedUp)
          else
            (case JSON_parse historyData of
               Inl e \<Rightarrow> (w, cleanedUp)
             | Inr history \<Rightarrow>
                 (case history of
                    Arr habits \<Rightarrow>
                      if key = ''habits_data'' then cleanup_habits_data ios key habits w cleanedUp
                      else cleanup_standard ios key history w cleanedUp
                  | Obj ps \<Rightarrow> cleanup_standard ios key history w cleanedUp
                  | _ \<Rightarrow> (w, cleanedUp))))"

definition cleanupOldData :: "bool \<Rightarrow> world \<Rightarrow> bool \<times> world" where
  "cleanupOldData ios w = (case fold (cleanup_key ios) historyKeys (w, False) of (w', c) \<Rightarrow> (c, w'))"

definition handleStorageFull :: "bool \<Rightarrow> world \<Rightarrow> world" where
  "handleStorageFull ios w =
     (if ios then showToast ''Storage full. Please export your data and clear some history.'' ''error'' w
      else showToast ''Storage limit reached. Please export and clear some data.'' ''error'' w)"

definition is_quota_error :: "js_error \<Rightarrow> bool" where
  "is_quota_error e =
     (error_name e = ''QuotaExceededError'' \<or> error_name e = ''NS_ERROR_DOM_QUOTA_REACHED''
      \<or> error_code e = Some 22)"

definition safeSetItem :: "bool \<Rightarrow> string \<Rightarrow> string \<Rightarrow> world \<Rightarrow> bool \<times> world" where
  "safeSetItem ios key value w =
     (case setItem key value w of
        (None, w1) \<Rightarrow> (True, w1)
      | (Some e, w1) \<Rightarrow>
          if is_quota_error e then
            (case cleanupOldData ios w1 of
               (cleaned, w2) \<Rightarrow>
                 if cleaned then
                   (case setItem key value w2 of
                      (None, w3) \<Rightarrow> (True, showToast ''Storage cleaned up to make room for new data.'' ''info'' w3)
                    | (Some e2, w3) \<Rightarrow> (False, handleStorageFull ios w3))
                 else (False, handleStorageFull ios w2))
          else (False, showToast ''Error saving data. Please try again.'' ''error'' w1))"

section \<open>Export: \<open>convertDataToCSV\<close> and \<open>exportData\<close>\<close>

definition headers :: "string list" where
  "headers = [''data_type'', ''key'', ''value'', ''date'', ''amount'', ''timestamp'', ''type'',
              ''count'', ''name'', ''color'', ''completed'', ''order'']"

text \<open>\<open>new Array(headers.length).fill('')\<close>, and a filled row escaped and joined.\<close>

definition empty_row :: "jsval list" where
  "empty_row = replicate (length headers) (Str [])"

definition csv_line :: "jsval list \<Rightarrow> string" where
  "csv_line row = intercalate '','' (map escapeCSV row)"

definition addRow :: "jsval \<Rightarrow> jsval \<Rightarrow> jsval \<Rightarrow> string" where
  "addRow dataType key value = csv_line (empty_row[0 := dataType, 1 := key, 2 := value])"

text \<open>\<open>localStorage.getItem(k)\<close> as a value, and \<open>JSON.parse(localStorage.getItem(k) || d)\<close>.\<close>

definition item_value :: "world \<Rightarrow> string \<Rightarrow> jsval" where
  "item_value w k = (case getItem w k of None \<Rightarrow> Null | Some s \<Rightarrow> Str s)"

definition parse_item :: "world \<Rightarrow> string \<Rightarrow> string \<Rightarrow> js_error + jsval" where
  "parse_item w k d =
     JSON_parse (case getItem w k of None \<Rightarrow> d | Some s \<Rightarrow> if s = [] then d else s)"

text \<open>A \<open>forEach\<close> whose body may throw: the results in order, or the first error.\<close>

fun traverse :: "('a \<Rightarrow> js_error + 'b) \<Rightarrow> 'a list \<Rightarrow> js_error + 'b list" where
  "traverse f [] = Inr []"
| "traverse f (x # xs) =
     (case f x of
        Inl e \<Rightarrow> Inl e
      | Inr y \<Rightarrow> (case traverse f xs of Inl e \<Rightarrow> Inl e | Inr ys \<Rightarrow> Inr (y # ys)))"

text \<open>\<open>v.forEach\<close> exists on arrays only.\<close>

fun for_each :: "jsval \<Rightarrow> js_error + (nat \<times> jsval) list" where
  "for_each (Arr xs) = Inr (zip [0..<length xs] xs)"
| "for_each v = Inl TypeError"

definition intake_row :: "string \<Rightarrow> string \<Rightarrow> nat \<times> jsval \<Rightarrow> js_error + string" where
  "intake_row tag date ie =
     (case member (snd ie) ''amount'' of
        Inl e \<Rightarrow> Inl e
      | Inr amount \<Rightarrow>
          (case member (snd ie) ''timestamp'' of
             Inl e \<Rightarrow> Inl e
           | Inr timestamp \<Rightarrow>
               Inr (csv_line (empty_row[0 := Str tag,
                                        1 := Str (date @ ''_'' @ string_of_nat (fst ie)),
                                        3 := Str date, 4 := amount, 5 := timestamp]))))"

definition workout_entry_row :: "string \<Rightarrow> nat \<times> jsval \<Rightarrow> js_error + string" where
  "workout_entry_row date ie =
     (case member (snd ie) ''timestamp'' of
        Inl e \<Rightarrow> Inl e
      | Inr timestamp \<Rightarrow>
          (case member (snd ie) ''type'' of
             Inl e \<Rightarrow> Inl e
           | Inr type \<Rightarrow>
               (case member (snd ie) ''count'' of
                  Inl e \<Rightarrow> Inl e
                | Inr count \<Rightarrow>
                    Inr (csv_line (empty_row[0 := Str ''workout_history'',
                                             1 := Str (date @ ''_'' @ string_of_nat (fst ie)),
                                             3 := Str date, 5 := timestamp, 6 := type, 7 := count])))))"

text \<open>\<open>Object.entries(history).forEach(([date, entries]) => entries.forEach(...))\<close>.\<close>

definition dated_rows :: "(string \<Rightarrow> nat \<times> jsval \<Rightarrow> js_error + string) \<Rightarrow> jsval \<Rightarrow> js_error + string list" where
  "dated_rows entry_row history =
     (case object_entries history of
        Inl e \<Rightarrow> Inl e
      | Inr ps \<Rightarrow>
          (case traverse (\<lambda>p. case for_each (snd p) of
                                  Inl e \<Rightarrow> Inl e
                                | Inr ies \<Rightarrow> traverse (entry_row (fst p)) ies) ps of
             Inl e \<Rightarrow> Inl e
           | Inr rss \<Rightarrow> Inr (concat rss)))"

definition workout_state_rows :: "jsval \<Rightarrow> js_error + string list" where
  "workout_state_rows workoutState =
     (case object_entries workoutState of
        Inl e \<Rightarrow> Inl e
      | Inr ps \<Rightarrow>
          traverse (\<lambda>p. case member (snd p) ''completed'' of
                           Inl e \<Rightarrow> Inl e
                         | Inr completed \<Rightarrow>
                             (case member (snd p) ''order'' of
                                Inl e \<Rightarrow> Inl e
                              | Inr order \<Rightarrow>
                                  Inr (csv_line (empty_row[0 := Str ''workout_state'', 1 := Str (fst p),
                                                           6 := Str (fst p), 10 := completed,
                                                           11 := order])))) ps)"

definition workout_count_rows :: "jsval \<Rightarrow> js_error + string list" where
  "workout_count_rows workoutCount =
     (case object_entries workoutCount of
        Inl e \<Rightarrow> Inl e
      | Inr ps \<Rightarrow>
          Inr (map (\<lambda>p. csv_line (empty_row[0 := Str ''workout_count'', 1 := Str (fst p),
                                            6 := Str (fst p), 7 := snd p])) ps))"

definition habit_rows :: "nat \<times> jsval \<Rightarrow> js_error + string list" where
  "habit_rows ih =
     (case member (snd ih) ''name'' of
        Inl e \<Rightarrow> Inl e
      | Inr name \<Rightarrow>
          (case member (snd ih) ''color'' of
             Inl e \<Rightarrow> Inl e
           | Inr color \<Rightarrow>
               (case member (snd ih) ''history'' of
                  Inl e \<Rightarrow> Inl e
                | Inr history \<Rightarrow>
                    (case (if js_truthy history then object_entries history else Inr []) of
                       Inl e \<Rightarrow> Inl e
                     | Inr ps \<Rightarrow>
                         Inr (csv_line (empty_row[0 := Str ''habit'', 1 := Str (string_of_nat (fst ih)),
                                                  8 := name, 9 := color])
                              # map (\<lambda>p. csv_line (empty_row[0 := Str ''habit_history'',
                                             1 := Str (string_of_nat (fst ih) @ ''_'' @ fst p),
                                             2 := snd p, 3 := Str (fst p)])) ps)))))"

definition habits_rows :: "jsval \<Rightarrow> js_error + string list" where
  "habits_rows habitsData =
     (case for_each habitsData of
        Inl e \<Rightarrow> Inl e
      | Inr ihs \<Rightarrow> (case traverse habit_rows ihs of Inl e \<Rightarrow> Inl e | Inr rss \<Rightarrow> Inr (concat rss)))"

text \<open>\<open>JSON.parse(localStorage.getItem(k) || d)\<close> followed by the loop over what it
  returned.\<close>

definition stored_rows :: "world \<Rightarrow> string \<Rightarrow> string \<Rightarrow> (jsval \<Rightarrow> js_error + string list) \<Rightarrow> js_error + string list" where
  "stored_rows w k d rows_of = (case parse_item w k d of Inl e \<Rightarrow> Inl e | Inr v \<Rightarrow> rows_of v)"

text \<open>\<open>convertDataToCSV\<close>; \<open>now\<close> is \<open>new Date().toISOString()\<close>. The rows are computed
  section by section in the source's order, so the first thing that throws is the error
  that leaves the function.\<close>

definition csv_sections :: "string \<Rightarrow> world \<Rightarrow> (js_error + string list) list" where
  "csv_sections now w =
     [Inr [intercalate '','' headers,
           addRow (Str ''meta'') (Str ''version'') (Str ''3.0''),
           addRow (Str ''meta'') (Str ''exportDate'') (Str now),
           addRow (Str ''water'') (Str ''goal'') (item_value w ''goal_water''),
           addRow (Str ''water'') (Str ''intake'') (item_value w ''intake_water'')],
      stored_rows w ''history_water'' ''{}'' (dated_rows (intake_row ''water_history'')),
      Inr [addRow (Str ''protein'') (Str ''goal'') (item_value w ''goal_protein''),
           addRow (Str ''protein'') (Str ''intake'') (item_value w ''intake_protein'')],
      stored_rows w ''history_protein'' ''{}'' (dated_rows (intake_row ''protein_history'')),
      stored_rows w ''workout_state'' ''{}'' workout_state_rows,
      stored_rows w ''workout_count'' ''{}'' workout_count_rows,
      stored_rows w ''workout_history'' ''{}'' (dated_rows workout_entry_row),
      stored_rows w ''habits_data'' ''[]'' habits_rows,
      Inr [addRow (Str ''settings'') (Str ''theme'') (item_value w ''app_theme''),
           addRow (Str ''settings'') (Str ''reminder'') (item_value w ''global_reminder'')]]"

definition convertDataToCSV :: "string \<Rightarrow> world \<Rightarrow> js_error + string" where
  "convertDataToCSV now w =
     (case traverse (\<lambda>section. section) (csv_sections now w) of
        Inl e \<Rightarrow> Inl e
      | Inr rows \<Rightarrow> Inr (intercalate [newline] (concat rows)))"

text \<open>\<open>exportData\<close>: the file handed to the user (its name and its text), or none when
  \<open>convertDataToCSV\<close> threw and the \<open>catch\<close> reported it.\<close>

definition exportData :: "string \<Rightarrow> world \<Rightarrow> (string \<times> string) option \<times> world" where
  "exportData now w =
     (case convertDataToCSV now w of
        Inl e \<Rightarrow> (None, showToast (''Error exporting data: '' @ error_message e) ''error'' w)
      | Inr csvString \<Rightarrow>
          (Some (''health-tracker-export-'' @ take 10 now @ ''.csv'', csvString),
           showToast ''Data exported successfully!'' ''success'' w))"

section \<open>Import: \<open>parseCSVData\<close>\<close>

text \<open>\<open>csvData.split(/\r?\n/)\<close>.\<close>

fun split_lines :: "string \<Rightarrow> string list" where
  "split_lines [] = [[]]"
| "split_lines [c] = (if c = newline then [[], []] else [[c]])"
| "split_lines (c # d # cs) =
     (if c = newline then [] # split_lines (d # cs)
      else if c = CHR 0x0D \<and> d = newline then [] # split_lines cs
      else (case split_lines (d # cs) of [] \<Rightarrow> [[c]] | l # ls \<Rightarrow> (c # l) # ls))"

text \<open>\<open>key.split('_')\<close>.\<close>

fun split_on :: "char \<Rightarrow> string \<Rightarrow> string list" where
  "split_on sep [] = [[]]"
| "split_on sep (c # cs) =
     (if c = sep then [] # split_on sep cs
      else (case split_on sep cs of [] \<Rightarrow> [[c]] | p # ps \<Rightarrow> (c # p) # ps))"

text \<open>\<open>headerMap\<close>: each header assigned its index, a later duplicate replacing an earlier one.\<close>

definition build_headerMap :: "string list \<Rightarrow> (string \<times> nat) list" where
  "build_headerMap hs = fold (\<lambda>p m. js_assign (fst p) (snd p) m) (zip hs [0..<length hs]) []"

text \<open>\<open>row[headerMap.name]\<close>: \<open>undefined\<close> when the header has no such column or the row
  is too short.\<close>

definition cell :: "(string \<times> nat) list \<Rightarrow> string list \<Rightarrow> string \<Rightarrow> jsval" where
  "cell headerMap row name =
     (case map_of headerMap name of
        None \<Rightarrow> Undefined
      | Some i \<Rightarrow> if i < length row then Str (row ! i) else Undefined)"

record imported_data =
  version :: jsval
  exportDate :: jsval
  water_goal :: jsval
  water_intake :: jsval
  water_history :: "(string \<times> jsval) list"
  protein_goal :: jsval
  protein_intake :: jsval
  protein_history :: "(string \<times> jsval) list"
  workout_state :: "(string \<times> jsval) list"
  workout_count :: "(string \<times> jsval) list"
  workout_history :: "(string \<times> jsval) list"
  habits_data :: "jsval list"
  settings_theme :: jsval
  settings_reminder :: jsval

definition initial_data :: "string \<Rightarrow> imported_data" where
  "initial_data now =
     \<lparr>version = Str ''3.0'', exportDate = Str now,
      water_goal = Null, water_intake = Null, water_history = [],
      protein_goal = Null, protein_intake = Null, protein_history = [],
      workout_state = [], workout_count = [], workout_history = [],
      habits_data = [], settings_theme = Null, settings_reminder = Null\<rparr>"

text \<open>
  \<open>if (!history[date]) history[date] = []; history[date].push(entry)\<close>. The date is
  used as a property name. With no own property of that name, a name inherited from
  \<open>Object.prototype\<close> reads as something truthy that has no \<open>push\<close>, and the call throws.
\<close>

definition history_push :: "jsval \<Rightarrow> jsval \<Rightarrow> (string \<times> jsval) list \<Rightarrow> js_error + (string \<times> jsval) list" where
  "history_push date entry history =
     (let d = to_string date in
      case map_of history d of
        None \<Rightarrow> if inherited d then Inl TypeError else Inr (history @ [(d, Arr [entry])])
      | Some (Arr entries) \<Rightarrow> Inr (put d (Arr (entries @ [entry])) history)
      | Some v \<Rightarrow> if js_truthy v then Inl TypeError else Inr (put d (Arr [entry]) history))"

definition placeholder :: jsval where
  "placeholder = Obj [(''history'', Obj [])]"

text \<open>\<open>while (data.length <= index) data.push({ history: {} })\<close>; the comparison is false
  when the index is \<open>NaN\<close>.\<close>

function pad_loop :: "int \<Rightarrow> jsval list \<Rightarrow> jsval list" where
  "pad_loop n data = (if int (length data) \<le> n then pad_loop n (data @ [placeholder]) else data)"
  by pat_completeness auto
termination
  by (relation "measure (\<lambda>(n, data). nat (n + 1 - int (length data)))") auto

declare pad_loop.simps [simp del]

definition pad_habits :: "jsval \<Rightarrow> jsval list \<Rightarrow> jsval list" where
  "pad_habits index data = (case index of Num n \<Rightarrow> pad_loop n data | _ \<Rightarrow> data)"

text \<open>\<open>data[index]\<close> for an index that \<open>parseInt\<close> returned: an element, or \<open>undefined\<close>
  when the index is negative, \<open>NaN\<close> or beyond the end.\<close>

definition array_get :: "jsval list \<Rightarrow> jsval \<Rightarrow> jsval" where
  "array_get data index =
     (case index of
        Num n \<Rightarrow> if 0 \<le> n \<and> n < int (length data) then data ! nat n else Undefined
      | _ \<Rightarrow> Undefined)"

definition array_set :: "jsval list \<Rightarrow> jsval \<Rightarrow> jsval \<Rightarrow> jsval list" where
  "array_set data index v =
     (case index of
        Num n \<Rightarrow> if 0 \<le> n \<and> n < int (length data) then data[nat n := v] else data
      | _ \<Rightarrow> data)"

definition habit_row :: "jsval \<Rightarrow> jsval \<Rightarrow> jsval \<Rightarrow> jsval list \<Rightarrow> js_error + jsval list" where
  "habit_row key habitName habitColor data0 =
     (let habitIndex = parseInt key;
          data = pad_habits habitIndex data0
      in case member (array_get data habitIndex) ''history'' of
           Inl e \<Rightarrow> Inl e
         | Inr h \<Rightarrow>
             Inr (array_set data habitIndex
                    (Obj [(''name'', habitName), (''color'', habitColor),
                          (''history'', if js_truthy h then h else Obj [])])))"

text \<open>\<open>habit_history\<close>: the key splits at its underscores into the index and the date; a
  key that is \<open>undefined\<close> has no \<open>split\<close>.\<close>

definition habit_history_row :: "jsval \<Rightarrow> jsval \<Rightarrow> jsval list \<Rightarrow> js_error + jsval list" where
  "habit_history_row key status data0 =
     (case key of
        Str k \<Rightarrow>
          (let parts = split_on (CHR ''_'') k;
               habitIdx = Str (hd parts);
               historyDate = (if 1 < length parts then Str (parts ! 1) else Undefined);
               idx = parseInt habitIdx;
               data = pad_habits idx data0
           in case member (array_get data idx) ''history'' of
                Inl e \<Rightarrow> Inl e
              | Inr h \<Rightarrow>
                  (case (array_get data idx, if js_truthy h then h else Obj []) of
                     (Obj ps, Obj hs) \<Rightarrow>
                       Inr (array_set data idx
                              (Obj (put ''history'' (Obj (js_assign (to_string historyDate) status hs)) ps)))
                   | _ \<Rightarrow> Inr data))
      | _ \<Rightarrow> Inl TypeError)"

definition row_is_blank :: "string \<Rightarrow> bool" where
  "row_is_blank r = (dropWhile js_white r = [])"

text \<open>The body of the loop over the data rows: the \<open>switch\<close> on \<open>data_type\<close>, which has
  no \<open>default\<close>.\<close>

definition process_row :: "(string \<times> nat) list \<Rightarrow> string \<Rightarrow> imported_data \<Rightarrow> js_error + imported_data" where
  "process_row headerMap r importedData =
     (if row_is_blank r then Inr importedData
      else
        let row = parseCSVRow r;
            dataType = cell headerMap row ''data_type'';
            key = cell headerMap row ''key'';
            value = cell headerMap row ''value''
        in
        if dataType = Str ''meta'' then
          Inr (importedData\<lparr>
                 version := (if key = Str ''version'' then value else version importedData),
                 exportDate := (if key = Str ''exportDate'' then value else exportDate importedData)\<rparr>)
        else if dataType = Str ''water'' then
          Inr (importedData\<lparr>
                 water_goal := (if key = Str ''goal'' then value else water_goal importedData),
                 water_intake := (if key = Str ''intake'' then value else water_intake importedData)\<rparr>)
        else if dataType = Str ''water_history'' then
          (case history_push (cell headerMap row ''date'')
                  (Obj [(''amount'', parseInt (cell headerMap row ''amount'')),
                        (''timestamp'', cell headerMap row ''timestamp'')])
                  (water_history importedData) of
             Inl e \<Rightarrow> Inl e
           | Inr h \<Rightarrow> Inr (importedData\<lparr>water_history := h\<rparr>))
        else if dataType = Str ''protein'' then
          Inr (importedData\<lparr>
                 protein_goal := (if key = Str ''goal'' then value else protein_goal importedData),
                 protein_intake := (if key = Str ''intake'' then value else protein_intake importedData)\<rparr>)
        else if dataType = Str ''protein_history'' then
          (case history_push (cell headerMap row ''date'')
                  (Obj [(''amount'', parseInt (cell headerMap row ''amount'')),
                        (''timestamp'', cell headerMap row ''timestamp'')])
                  (protein_history importedData) of
             Inl e \<Rightarrow> Inl e
           | Inr h \<Rightarrow> Inr (importedData\<lparr>protein_history := h\<rparr>))
        else if dataType = Str ''workout_state'' then
          Inr (importedData\<lparr>workout_state :=
                 js_assign (to_string (cell headerMap row ''type''))
                   (Obj [(''completed'', Bool (cell headerMap row ''completed'' = Str ''true'')),
                         (''order'', parseInt (cell headerMap row ''order''))])
                   (workout_state importedData)\<rparr>)
        else if dataType = Str ''workout_count'' then
          Inr (importedData\<lparr>workout_count :=
                 js_assign (to_string (cell headerMap row ''type''))
                   (parseInt (cell headerMap row ''count''))
                   (workout_count importedData)\<rparr>)
        else if dataType = Str ''workout_history'' then
          (case history_push (cell headerMap row ''date'')
                  (Obj [(''type'', cell headerMap row ''type''),
                        (''count'', parseInt (cell headerMap row ''count'')),
                        (''timestamp'', cell headerMap row ''timestamp'')])
                  (workout_history importedData) of
             Inl e \<Rightarrow> Inl e
           | Inr h \<Rightarrow> Inr (importedData\<lparr>workout_history := h\<rparr>))
        else if dataType = Str ''habit'' then
          (case habit_row key (cell headerMap row ''name'') (cell headerMap row ''color'')
                  (habits_data importedData) of
             Inl e \<Rightarrow> Inl e
           | Inr d \<Rightarrow> Inr (importedData\<lparr>habits_data := d\<rparr>))
        else if dataType = Str ''habit_history'' then
          (case habit_history_row key value (habits_data importedData) of
             Inl e \<Rightarrow> Inl e
           | Inr d \<Rightarrow> Inr (importedData\<lparr>habits_data := d\<rparr>))
        else if dataType = Str ''settings'' then
          Inr (importedData\<lparr>
                 settings_theme := (if key = Str ''theme'' then value else settings_theme importedData),
                 settings_reminder := (if key = Str ''reminder'' then value else settings_reminder importedData)\<rparr>)
        else Inr importedData)"

fun process_rows :: "(string \<times> nat) list \<Rightarrow> string list \<Rightarrow> imported_data \<Rightarrow> js_error + imported_data" where
  "process_rows headerMap [] importedData = Inr importedData"
| "process_rows headerMap (r # rs) importedData =
     (case process_row headerMap r importedData of
        Inl e \<Rightarrow> Inl e
      | Inr d \<Rightarrow> process_rows headerMap rs d)"

text \<open>The object \<open>parseCSVData\<close> returns, the histories as JSON text.\<close>

definition snapshot_of :: "imported_data \<Rightarrow> jsval" where
  "snapshot_of d =
     Obj [(''version'', version d),
          (''exportDate'', exportDate d),
          (''water'', Obj [(''goal'', water_goal d), (''intake'', water_intake d),
                           (''history'', Str (JSON_stringify (Obj (water_history d))))]),
          (''protein'', Obj [(''goal'', protein_goal d), (''intake'', protein_intake d),
                             (''history'', Str (JSON_stringify (Obj (protein_history d))))]),
          (''workout'', Obj [(''state'', Str (JSON_stringify (Obj (workout_state d)))),
                             (''count'', Str (JSON_stringify (Obj (workout_count d)))),
                             (''history'', Str (JSON_stringify (Obj (workout_history d))))]),
          (''habits'', Obj [(''data'', Str (JSON_stringify (Arr (habits_data d))))]),
          (''settings'', Obj [(''theme'', settings_theme d), (''reminder'', settings_reminder d)])]"

definition parseCSVData :: "string \<Rightarrow> string \<Rightarrow> js_error + jsval" where
  "parseCSVData now csvData =
     (let rows = split_lines csvData in
      if length rows < 2 then Inl (Error ''Invalid CSV file format'')
      else
        case process_rows (build_headerMap (parseCSVRow (hd rows))) (tl rows) (initial_data now) of
          Inl e \<Rightarrow> Inl e
        | Inr d \<Rightarrow> Inr (snapshot_of d))"

section \<open>Import: \<open>performDataImport\<close>\<close>

text \<open>
  One statement of the \<open>try\<close> block: \<open>importedData.section.field\<close> is read; when it is
  truthy it is written under the key with \<open>safeSetItem\<close>. A \<open>guarded\<close> statement first
  tests that the section is there; a \<open>checked\<close> one throws the named failure when
  \<open>safeSetItem\<close> returns \<open>false\<close>. A statement yields the error it threw, if any.
\<close>

definition import_step ::
  "bool \<Rightarrow> jsval \<Rightarrow> bool \<Rightarrow> bool \<Rightarrow> string \<Rightarrow> string \<Rightarrow> string \<Rightarrow> string \<Rightarrow> world \<Rightarrow> js_error option \<times> world" where
  "import_step ios importedData guarded checked section field key failure w =
     (case member importedData section of
        Inl e \<Rightarrow> (Some e, w)
      | Inr sec \<Rightarrow>
          if guarded \<and> \<not> js_truthy sec then (None, w)
          else
            (case member sec field of
               Inl e \<Rightarrow> (Some e, w)
             | Inr v \<Rightarrow>
                 if js_truthy v then
                   (case safeSetItem ios key (to_string v) w of
                      (ok, w') \<Rightarrow> if checked \<and> \<not> ok then (Some (Error failure), w') else (None, w'))
                 else (None, w)))"

fun run_steps :: "(world \<Rightarrow> js_error option \<times> world) list \<Rightarrow> world \<Rightarrow> js_error option \<times> world" where
  "run_steps [] w = (None, w)"
| "run_steps (step # steps) w =
     (case step w of
        (Some e, w') \<Rightarrow> (Some e, w')
      | (None, w') \<Rightarrow> run_steps steps w')"

definition import_steps :: "bool \<Rightarrow> jsval \<Rightarrow> (world \<Rightarrow> js_error option \<times> world) list" where
  "import_steps ios d =
     [import_step ios d False True ''water'' ''goal'' ''goal_water'' ''Failed to import water goal'',
      import_step ios d False True ''water'' ''intake'' ''intake_water'' ''Failed to import water intake'',
      import_step ios d False True ''water'' ''history'' ''history_water'' ''Failed to import water history'',
      import_step ios d False True ''protein'' ''goal'' ''goal_protein'' ''Failed to import protein goal'',
      import_step ios d False True ''protein'' ''intake'' ''intake_protein'' ''Failed to import protein intake'',
      import_step ios d False True ''protein'' ''history'' ''history_protein'' ''Failed to import protein history'',
      import_step ios d True True ''workout'' ''state'' ''workout_state'' ''Failed to import workout state'',
      import_step ios d True True ''workout'' ''count'' ''workout_count'' ''Failed to import workout count'',
      import_step ios d True True ''workout'' ''history'' ''workout_history'' ''Failed to import workout history'',
      import_step ios d True True ''habits'' ''data'' ''habits_data'' ''Failed to import habits data'',
      import_step ios d True False ''settings'' ''theme'' ''app_theme'' [],
      import_step ios d True False ''settings'' ''reminder'' ''global_reminder'' []]"

definition performDataImport :: "bool \<Rightarrow> jsval \<Rightarrow> world \<Rightarrow> bool \<times> world" where
  "performDataImport ios importedData w =
     (case run_steps (import_steps ios importedData) w of
        (None, w') \<Rightarrow> (True, w')
      | (Some storageError, w') \<Rightarrow>
          (False, showToast (''Import failed: '' @ error_message storageError) ''error'' w'))"

text \<open>The row kinds the \<open>switch\<close> of \<open>parseCSVData\<close> has a case for.\<close>

definition recognized_types :: "string list" where
  "recognized_types =
     [''meta'', ''water'', ''water_history'', ''protein'', ''protein_history'', ''workout_state'',
      ''workout_count'', ''workout_history'', ''habit'', ''habit_history'', ''settings'']"


text \<open>The fields \<open>performDataImport\<close> applies, each with the section of \<open>importedData\<close> it
  is read from and the storage key it is written under.\<close>

definition field_keys :: "(string \<times> string \<times> string) list" where
  "field_keys =
     [(''water'', ''goal'', ''goal_water''), (''water'', ''intake'', ''intake_water''),
      (''water'', ''history'', ''history_water''),
      (''protein'', ''goal'', ''goal_protein''), (''protein'', ''intake'', ''intake_protein''),
      (''protein'', ''history'', ''history_protein''),
      (''workout'', ''state'', ''workout_state''), (''workout'', ''count'', ''workout_count''),
      (''workout'', ''history'', ''workout_history''),
      (''habits'', ''data'', ''habits_data''),
      (''settings'', ''theme'', ''app_theme''), (''settings'', ''reminder'', ''global_reminder'')]"


text \<open>The storage key a recorded call of \<open>setItem\<close> names. A run from \<open>w\<close> to \<open>w'\<close>
  leaves a key alone when the key holds in \<open>w'\<close> what it held in \<open>w\<close> and no call of
  \<open>setItem\<close> recorded since \<open>w\<close> names it.\<close>

fun event_key :: "event \<Rightarrow> string option" where
  "event_key (Wrote k v) = Some k"
| "event_key (Refused k v) = Some k"
| "event_key (Toast m t) = None"

definition leaves_key :: "string \<Rightarrow> world \<Rightarrow> world \<Rightarrow> bool" where
  "leaves_key key w w' =
     (getItem w' key = getItem w key
      \<and> (\<exists>new. events w' = events w @ new \<and> Some key \<notin> event_key ` set new))"

section \<open>Example data\<close>

text \<open>A history of the 31 days of January 2024, each with no entries, as an object and as
  its JSON text, and the same without its oldest day.\<close>

definition january :: jsval where
  "january =
     Obj [
          (''2024-01-01'', Arr []), (''2024-01-02'', Arr []), (''2024-01-03'', Arr []), (''2024-01-04'', Arr []),
          (''2024-01-05'', Arr []), (''2024-01-06'', Arr []), (''2024-01-07'', Arr []), (''2024-01-08'', Arr []),
          (''2024-01-09'', Arr []), (''2024-01-10'', Arr []), (''2024-01-11'', Arr []), (''2024-01-12'', Arr []),
          (''2024-01-13'', Arr []), (''2024-01-14'', Arr []), (''2024-01-15'', Arr []), (''2024-01-16'', Arr []),
          (''2024-01-17'', Arr []), (''2024-01-18'', Arr []), (''2024-01-19'', Arr []), (''2024-01-20'', Arr []),
          (''2024-01-21'', Arr []), (''2024-01-22'', Arr []), (''2024-01-23'', Arr []), (''2024-01-24'', Arr []),
          (''2024-01-25'', Arr []), (''2024-01-26'', Arr []), (''2024-01-27'', Arr []), (''2024-01-28'', Arr []),
          (''2024-01-29'', Arr []), (''2024-01-30'', Arr []), (''2024-01-31'', Arr [])]"

definition january_trimmed :: jsval where
  "january_trimmed =
     Obj [
          (''2024-01-02'', Arr []), (''2024-01-03'', Arr []), (''2024-01-04'', Arr []), (''2024-01-05'', Arr []),
          (''2024-01-06'', Arr []), (''2024-01-07'', Arr []), (''2024-01-08'', Arr []), (''2024-01-09'', Arr []),
          (''2024-01-10'', Arr []), (''2024-01-11'', Arr []), (''2024-01-12'', Arr []), (''2024-01-13'', Arr []),
          (''2024-01-14'', Arr []), (''2024-01-15'', Arr []), (''2024-01-16'', Arr []), (''2024-01-17'', Arr []),
          (''2024-01-18'', Arr []), (''2024-01-19'', Arr []), (''2024-01-20'', Arr []), (''2024-01-21'', Arr []),
          (''2024-01-22'', Arr []), (''2024-01-23'', Arr []), (''2024-01-24'', Arr []), (''2024-01-25'', Arr []),
          (''2024-01-26'', Arr []), (''2024-01-27'', Arr []), (''2024-01-28'', Arr []), (''2024-01-29'', Arr []),
          (''2024-01-30'', Arr []), (''2024-01-31'', Arr [])]"

definition january_text :: string where
  \<open>january_text =
       ''{"2024-01-01":[],"2024-01-02":[],"2024-01-03":[],"2024-01-04":[],"2024-01-05":[]''
       @ '',"2024-01-06":[],"2024-01-07":[],"2024-01-08":[],"2024-01-09":[],"2024-01-10":[]''
       @ '',"2024-01-11":[],"2024-01-12":[],"2024-01-13":[],"2024-01-14":[],"2024-01-15":[]''
       @ '',"2024-01-16":[],"2024-01-17":[],"2024-01-18":[],"2024-01-19":[],"2024-01-20":[]''
       @ '',"2024-01-21":[],"2024-01-22":[],"2024-01-23":[],"2024-01-24":[],"2024-01-25":[]''
       @ '',"2024-01-26":[],"2024-01-27":[],"2024-01-28":[],"2024-01-29":[],"2024-01-30":[]''
       @ '',"2024-01-31":[]}''\<close>

definition january_trimmed_text :: string where
  \<open>january_trimmed_text =
       ''{"2024-01-02":[],"2024-01-03":[],"2024-01-04":[],"2024-01-05":[],"2024-01-06":[]''
       @ '',"2024-01-07":[],"2024-01-08":[],"2024-01-09":[],"2024-01-10":[],"2024-01-11":[]''
       @ '',"2024-01-12":[],"2024-01-13":[],"2024-01-14":[],"2024-01-15":[],"2024-01-16":[]''
       @ '',"2024-01-17":[],"2024-01-18":[],"2024-01-19":[],"2024-01-20":[],"2024-01-21":[]''
       @ '',"2024-01-22":[],"2024-01-23":[],"2024-01-24":[],"2024-01-25":[],"2024-01-26":[]''
       @ '',"2024-01-27":[],"2024-01-28":[],"2024-01-29":[],"2024-01-30":[],"2024-01-31":[]}''\<close>

text \<open>A store that holds the 31 days of water history and has room for ten characters more.\<close>

definition full_store :: world where
  "full_store = \<lparr>items = [(''history_water'', january_text)], capacity = 520, events = []\<rparr>"

text \<open>A store with no room at all, and an import that only has the two settings.\<close>

definition no_room :: world where
  "no_room = \<lparr>items = [], capacity = 0, events = []\<rparr>"

definition settings_only_import :: jsval where
  "settings_only_import =
     Obj [(''water'', Obj [(''goal'', Null), (''intake'', Null), (''history'', Null)]),
          (''protein'', Obj [(''goal'', Null), (''intake'', Null), (''history'', Null)]),
          (''settings'', Obj [(''theme'', Str ''dark''), (''reminder'', Str ''on'')])]"


text \<open>A store whose protein history is not JSON.\<close>

definition corrupt_store :: world where
  "corrupt_store =
     \<lparr>items = [(''goal_water'', ''2000''), (''history_protein'', ''{'')], capacity = 5242880,
      events = []\<rparr>"


section \<open>Kinds of rows\<close>

text \<open>A row the loop does not skip whose \<open>data_type\<close> is \<open>habit\<close> or \<open>habit_history\<close>.\<close>

definition habit_kind :: "(string \<times> nat) list \<Rightarrow> string \<Rightarrow> bool" where
  "habit_kind headerMap r =
     (\<not> row_is_blank r
      \<and> (cell headerMap (parseCSVRow r) ''data_type'' = Str ''habit''
         \<or> cell headerMap (parseCSVRow r) ''data_type'' = Str ''habit_history''))"

text \<open>A history row whose date is a property name inherited from \<open>Object.prototype\<close>;
  \<open>history_push\<close> throws on it.\<close>

definition inherited_date :: "(string \<times> nat) list \<Rightarrow> string \<Rightarrow> bool" where
  "inherited_date headerMap r =
     (\<not> row_is_blank r
      \<and> (cell headerMap (parseCSVRow r) ''data_type'' = Str ''water_history''
         \<or> cell headerMap (parseCSVRow r) ''data_type'' = Str ''protein_history''
         \<or> cell headerMap (parseCSVRow r) ''data_type'' = Str ''workout_history'')
      \<and> inherited (to_string (cell headerMap (parseCSVRow r) ''date'')))"

fun is_array :: "jsval \<Rightarrow> bool" where
  "is_array (Arr xs) = True"
| "is_array v = False"

text \<open>What the loop of \<open>parseCSVData\<close> keeps true of the three histories it builds: every
  date holds an array.\<close>

definition dated_arrays :: "imported_data \<Rightarrow> bool" where
  "dated_arrays d =
     (list_all (\<lambda>p. is_array (snd p)) (water_history d)
      \<and> list_all (\<lambda>p. is_array (snd p)) (protein_history d)
      \<and> list_all (\<lambda>p. is_array (snd p)) (workout_history d))"


text \<open>An import file whose only habit row has the key 5.\<close>

definition header_line :: string where
  "header_line = ''data_type,key,value,date,amount,timestamp,type,count,name,color,completed,order''"

definition habit_file :: string where
  "habit_file =
     header_line @ [newline] @ ''water,goal,2000,,,,,,,,,'' @ [newline]
       @ ''habit,5,,,,,,,Read,#4CAF50,,''"


text \<open>An import file whose water goal is an empty cell, the snapshot it parses to, and a
  store that holds a water goal.\<close>

definition goal_file :: string where
  "goal_file =
     header_line @ [newline] @ ''water,goal,,,,,,,,,,'' @ [newline] @ ''water,intake,7,,,,,,,,,''"

definition goal_snapshot :: jsval where
  "goal_snapshot =
     Obj [(''version'', Str ''3.0''),
          (''exportDate'', Str ''T''),
          (''water'', Obj [(''goal'', Str []), (''intake'', Str ''7''), (''history'', Str ''{}'')]),
          (''protein'', Obj [(''goal'', Null), (''intake'', Null), (''history'', Str ''{}'')]),
          (''workout'', Obj [(''state'', Str ''{}''), (''count'', Str ''{}''), (''history'', Str ''{}'')]),
          (''habits'', Obj [(''data'', Str ''[]'')]),
          (''settings'', Obj [(''theme'', Null), (''reminder'', Null)])]"

definition goal_store :: world where
  "goal_store = \<lparr>items = [(''goal_water'', ''1500'')], capacity = 5242880, events = []\<rparr>"


text \<open>An import file with the two settings and nothing else, the snapshot it parses to, and
  an empty store with room for exactly the six structured texts of that snapshot under
  their keys.\<close>

definition settings_file :: string where
  "settings_file =
     header_line @ [newline] @ ''settings,theme,dark,,,,,,,,,'' @ [newline]
       @ ''settings,reminder,on,,,,,,,,,''"

definition settings_snapshot :: jsval where
  "settings_snapshot =
     Obj [(''version'', Str ''3.0''),
          (''exportDate'', Str ''T''),
          (''water'', Obj [(''goal'', Null), (''intake'', Null), (''history'', Str ''{}'')]),
          (''protein'', Obj [(''goal'', Null), (''intake'', Null), (''history'', Str ''{}'')]),
          (''workout'', Obj [(''state'', Str ''{}''), (''count'', Str ''{}''), (''history'', Str ''{}'')]),
          (''habits'', Obj [(''data'', Str ''[]'')]),
          (''settings'', Obj [(''theme'', Str ''dark''), (''reminder'', Str ''on'')])]"

definition small_store :: world where
  "small_store = \<lparr>items = [], capacity = 92, events = []\<rparr>"

definition empty_histories :: "(string \<times> string) list" where
  "empty_histories =
     [(''history_water'', ''{}''), (''history_protein'', ''{}''), (''workout_state'', ''{}''),
      (''workout_count'', ''{}''), (''workout_history'', ''{}''), (''habits_data'', ''[]'')]"


text \<open>The snapshot the file with the habit row of key 5 parses to.\<close>

definition habit_snapshot :: jsval where
  \<open>habit_snapshot =
     Obj [(''version'', Str ''3.0''),
          (''exportDate'', Str ''T''),
          (''water'', Obj [(''goal'', Str ''2000''), (''intake'', Null), (''history'', Str ''{}'')]),
          (''protein'', Obj [(''goal'', Null), (''intake'', Null), (''history'', Str ''{}'')]),
          (''workout'', Obj [(''state'', Str ''{}''), (''count'', Str ''{}''), (''history'', Str ''{}'')]),
          (''habits'', Obj [(''data'',
              Str (''[{"history":{}},{"history":{}},{"history":{}},{"history":{}},{"history":{}},''
                   @ ''{"name":"Read","color":"#4CAF50","history":{}}]''))]),
          (''settings'', Obj [(''theme'', Null), (''reminder'', Null)])]\<close>


section \<open>JSON values and their texts\<close>



text \<open>What may follow a value inside an array or an object, or at the end of the text.\<close>

definition value_end :: "string \<Rightarrow> bool" where
  "value_end rest = (rest = [] \<or> hd rest = comma \<or> hd rest = CHR '']'' \<or> hd rest = CHR ''}'')"







section \<open>The most recent dates\<close>





text \<open>A store the browser can hold: what is stored fits its capacity.\<close>

definition within_capacity :: "world \<Rightarrow> bool" where
  "within_capacity w = (stored_size (items w) \<le> capacity w)"







section \<open>Snapshots the export can carry\<close>


text \<open>A text that one cell of one line gives back: it has no newline, and it is not made
  of double quotes alone.\<close>

definition cell_safe :: "string \<Rightarrow> bool" where
  "cell_safe s = (newline \<notin> set s \<and> (s = [] \<or> list_ex (\<lambda>c. c \<noteq> dquote) s))"

























section \<open>Escaping and tokenizing\<close>

lemma loop_inside_escaped:
  "parseCSVRow_loop (double_quotes t @ dquote # rest) True cur res =
     (if rest \<noteq> [] \<and> hd rest = dquote
      then parseCSVRow_loop (tl rest) True ((cur @ t) @ [dquote]) res
      else parseCSVRow_loop rest False (cur @ t) res)"
proof (induction t arbitrary: cur)
  case Nil
  show ?case by (cases rest) (simp_all add: double_quotes_def)
next
  case (Cons c t)
  have step: "parseCSVRow_loop (double_quotes (c # t) @ dquote # rest) True cur res =
              parseCSVRow_loop (double_quotes t @ dquote # rest) True (cur @ [c]) res"
    by (simp add: double_quotes_def)
  show ?case unfolding step Cons.IH by simp
qed

lemma loop_outside_escaped:
  "\<exists>c \<in> set t. c \<noteq> dquote \<Longrightarrow>
   parseCSVRow_loop (dquote # double_quotes t @ [dquote]) False cur res = res @ [cur @ t]"
proof (induction t arbitrary: cur)
  case Nil
  then show ?case by simp
next
  case (Cons c t)
  show ?case
  proof (cases "c = dquote")
    case True
    with Cons.prems have ex: "\<exists>c \<in> set t. c \<noteq> dquote" by auto
    have "parseCSVRow_loop (dquote # double_quotes (c # t) @ [dquote]) False cur res =
          parseCSVRow_loop (dquote # double_quotes t @ [dquote]) False (cur @ [dquote]) res"
      using True by (simp add: double_quotes_def)
    then show ?thesis using Cons.IH [OF ex] True by simp
  next
    case False
    have "parseCSVRow_loop (dquote # double_quotes (c # t) @ [dquote]) False cur res =
          parseCSVRow_loop (double_quotes (c # t) @ [dquote]) True cur res"
      using False by (simp add: double_quotes_def)
    then show ?thesis by (simp add: loop_inside_escaped)
  qed
qed

text \<open>
  C3. A string that contains a comma, a double quote and a newline is escaped by wrapping
  it in double quotes with every inner double quote doubled, and \<open>parseCSVRow\<close> reads
  the escaped text back as one field that is the original string.
\<close>

theorem escapeCSV_parseCSVRow_roundtrip:
  assumes "comma \<in> set s" and "dquote \<in> set s" and "newline \<in> set s"
  shows "escapeCSV (Str s) = [dquote] @ double_quotes s @ [dquote]
         \<and> parseCSVRow (escapeCSV (Str s)) = [s]"
proof -
  have esc: "escapeCSV (Str s) = [dquote] @ double_quotes s @ [dquote]"
    using assms by (simp add: escapeCSV_def)
  have "\<exists>c \<in> set s. c \<noteq> dquote" using assms(1) by auto
  then have "parseCSVRow_loop (dquote # double_quotes s @ [dquote]) False [] [] = [] @ [[] @ s]"
    by (rule loop_outside_escaped)
  then show ?thesis using esc by (simp add: parseCSVRow_def)
qed

theorem escapeCSV_parseCSVRow_roundtrip_witness:
  "comma \<in> set [CHR ''a'', comma, dquote, newline, CHR ''b'']
   \<and> dquote \<in> set [CHR ''a'', comma, dquote, newline, CHR ''b'']
   \<and> newline \<in> set [CHR ''a'', comma, dquote, newline, CHR ''b'']
   \<and> parseCSVRow (escapeCSV (Str [CHR ''a'', comma, dquote, newline, CHR ''b''])) =
       [[CHR ''a'', comma, dquote, newline, CHR ''b'']]"
proof -
  let ?s = "[CHR ''a'', comma, dquote, newline, CHR ''b'']"
  have h1: "comma \<in> set ?s" and h2: "dquote \<in> set ?s" and h3: "newline \<in> set ?s"
    by simp_all
  from escapeCSV_parseCSVRow_roundtrip [OF h1 h2 h3] h1 h2 h3 show ?thesis by blast
qed

section \<open>The quota threshold\<close>

lemma isNearQuota_standard: "isNearQuota False w \<longleftrightarrow> 4718592 < getUsage w"
  by (auto simp: isNearQuota_def maxSize_def threshold_def)

lemma isNearQuota_constrained: "isNearQuota True w \<longleftrightarrow> 1468006 < getUsage w"
  by (auto simp: isNearQuota_def maxSize_def threshold_def)

lemma getUsage_single:
  "getUsage \<lparr>items = [(''k'', replicate 4718591 (CHR ''x''))], capacity = 5242880, events = []\<rparr>
     = 4718592"
  by (simp add: getUsage_def getItem_def)

text \<open>
  C4, as the code has it. \<open>isNearQuota\<close> is true exactly when the usage \<open>getUsage\<close>
  counts is strictly above quota times threshold: on the standard tier the boundary is
  4718592 and a usage of 4718592 is not near the quota; on the constrained tier the
  boundary is 1468006.4, so a usage up to 1468006 is not near the quota and one from
  1468007 on is.
\<close>

theorem isNearQuota_strictly_above:
  "(isNearQuota False w \<longleftrightarrow> 4718592 < getUsage w)
   \<and> (isNearQuota True w \<longleftrightarrow> 1468007 \<le> getUsage w)
   \<and> real (maxSize False) * threshold False = 4718592
   \<and> real (maxSize True) * threshold True = 1468006.4"
  using isNearQuota_standard [of w] isNearQuota_constrained [of w]
  by (simp add: maxSize_def threshold_def) linarith

theorem isNearQuota_strictly_above_witness:
  "isNearQuota False \<lparr>items = [(''k'', replicate 4718592 (CHR ''x''))], capacity = 5242880, events = []\<rparr>
   \<and> \<not> isNearQuota True \<lparr>items = [(''k'', replicate 1468005 (CHR ''x''))], capacity = 5242880, events = []\<rparr>"
  using isNearQuota_strictly_above
          [of "\<lparr>items = [(''k'', replicate 4718592 (CHR ''x''))], capacity = 5242880, events = []\<rparr>"]
        isNearQuota_strictly_above
          [of "\<lparr>items = [(''k'', replicate 1468005 (CHR ''x''))], capacity = 5242880, events = []\<rparr>"]
  by (simp add: getUsage_def getItem_def)

text \<open>
  The claim of C4 as stated fails on the standard tier: a namespace whose usage is exactly
  quota times threshold is reported as not near the quota.
\<close>

theorem isNearQuota_at_boundary_counterexample:
  "real (getUsage \<lparr>items = [(''k'', replicate 4718591 (CHR ''x''))], capacity = 5242880, events = []\<rparr>)
     = real (maxSize False) * threshold False
   \<and> \<not> isNearQuota False \<lparr>items = [(''k'', replicate 4718591 (CHR ''x''))], capacity = 5242880, events = []\<rparr>"
  by (simp add: isNearQuota_standard getUsage_single maxSize_def threshold_def)

section \<open>Rows of an unknown kind\<close>

lemma process_row_unrecognized:
  assumes "cell hm (parseCSVRow r) ''data_type'' \<notin> set (map Str recognized_types)"
  shows "process_row hm r d = Inr d"
  using assms by (simp add: process_row_def recognized_types_def Let_def)

lemma process_rows_append:
  "process_rows hm (rs1 @ rs2) d =
     (case process_rows hm rs1 d of Inl e \<Rightarrow> Inl e | Inr d' \<Rightarrow> process_rows hm rs2 d')"
  by (induction rs1 arbitrary: d) (auto split: sum.splits)

lemma process_rows_skip:
  assumes "process_row hm r = Inr"
  shows "process_rows hm (rs1 @ r # rs2) d = process_rows hm (rs1 @ rs2) d"
  by (simp add: process_rows_append assms split: sum.splits)

text \<open>
  C9. A data row whose \<open>data_type\<close> is none of the recognized kinds leaves the data
  being built as it is, and the text parses to what its other rows alone give: a
  snapshot when they parse, their error when they do not.
\<close>

theorem unrecognized_row_ignored:
  assumes "split_lines csvData = h # rs1 @ r # rs2"
    and "cell (build_headerMap (parseCSVRow h)) (parseCSVRow r) ''data_type''
           \<notin> set (map Str recognized_types)"
  shows "process_row (build_headerMap (parseCSVRow h)) r d = Inr d
         \<and> parseCSVData now csvData =
             (case process_rows (build_headerMap (parseCSVRow h)) (rs1 @ rs2) (initial_data now) of
                Inl e \<Rightarrow> Inl e
              | Inr d' \<Rightarrow> Inr (snapshot_of d'))"
proof -
  let ?hm = "build_headerMap (parseCSVRow h)"
  have row: "process_row ?hm r = Inr"
    using process_row_unrecognized [OF assms(2)] by (intro ext)
  have "process_rows ?hm (rs1 @ r # rs2) (initial_data now)
          = process_rows ?hm (rs1 @ rs2) (initial_data now)"
    by (rule process_rows_skip [OF row])
  then show ?thesis
    using row assms(1) by (simp add: parseCSVData_def)
qed


theorem unrecognized_row_ignored_witness:
  "split_lines (''data_type,key,value'' @ [newline] @ ''water,goal,5'' @ [newline] @ ''note,x,y''
                 @ [newline] @ ''water,intake,7'')
     = ''data_type,key,value'' # [''water,goal,5''] @ ''note,x,y'' # [''water,intake,7'']
   \<and> cell (build_headerMap (parseCSVRow ''data_type,key,value'')) (parseCSVRow ''note,x,y'') ''data_type''
        \<notin> set (map Str recognized_types)
   \<and> parseCSVData ''T'' (''data_type,key,value'' @ [newline] @ ''water,goal,5'' @ [newline] @ ''note,x,y''
                          @ [newline] @ ''water,intake,7'')
       = Inr (snapshot_of ((initial_data ''T'')\<lparr>water_goal := Str ''5'', water_intake := Str ''7''\<rparr>))"
proof -
  let ?csv = "''data_type,key,value'' @ [newline] @ ''water,goal,5'' @ [newline] @ ''note,x,y''
                @ [newline] @ ''water,intake,7''"
  have h1: "split_lines ?csv = ''data_type,key,value'' # [''water,goal,5''] @ ''note,x,y'' # [''water,intake,7'']"
    by code_simp
  have h2: "cell (build_headerMap (parseCSVRow ''data_type,key,value'')) (parseCSVRow ''note,x,y'') ''data_type''
              \<notin> set (map Str recognized_types)"
    by code_simp
  have h3: "process_rows (build_headerMap (parseCSVRow ''data_type,key,value''))
              ([''water,goal,5''] @ [''water,intake,7'']) (initial_data ''T'')
            = Inr ((initial_data ''T'')\<lparr>water_goal := Str ''5'', water_intake := Str ''7''\<rparr>)"
    by code_simp
  from unrecognized_row_ignored [OF h1 h2, of _ "''T''"] h1 h2 h3 show ?thesis by simp
qed


section \<open>What a write touches\<close>

lemma map_of_put: "map_of (put k v ps) k' = (if k' = k then Some v else map_of ps k')"
  by (induction ps) auto

lemma getItem_setItem:
  "getItem (snd (setItem k v w)) k' =
     (if fst (setItem k v w) = None \<and> k' = k then Some v else getItem w k')"
  by (simp add: setItem_def getItem_def Let_def map_of_put)

lemma getItem_setItem_other:
  "k' \<noteq> k \<Longrightarrow> getItem (snd (setItem k v w)) k' = getItem w k'"
  by (simp add: getItem_setItem)

lemma capacity_setItem: "capacity (snd (setItem k v w)) = capacity w"
  by (simp add: setItem_def Let_def)

lemma setItem_error: "fst (setItem k v w) = Some e \<Longrightarrow> is_quota_error e"
  by (auto simp: setItem_def Let_def is_quota_error_def split: if_splits)

lemma getItem_showToast [simp]: "getItem (showToast m t w) k = getItem w k"
  by (simp add: showToast_def getItem_def)

lemma getItem_handleStorageFull [simp]: "getItem (handleStorageFull ios w) k = getItem w k"
  by (simp add: handleStorageFull_def)

lemma getItem_setItem_pair:
  "setItem k v w = (r, w') \<Longrightarrow> k' \<noteq> k \<Longrightarrow> getItem w' k' = getItem w k'"
  using getItem_setItem_other [of k' k v w] by simp

lemma getItem_cleanup_standard:
  "k' \<noteq> key \<Longrightarrow> getItem (fst (cleanup_standard ios key h w c)) k' = getItem w k'"
  by (auto simp: cleanup_standard_def getItem_setItem_pair split: sum.splits option.splits prod.splits)

lemma getItem_cleanup_habits_data:
  "k' \<noteq> key \<Longrightarrow> getItem (fst (cleanup_habits_data ios key hs w c)) k' = getItem w k'"
  by (auto simp: cleanup_habits_data_def getItem_setItem_other split: option.splits prod.splits)

lemma getItem_cleanup_key:
  "k' \<noteq> key \<Longrightarrow> getItem (fst (cleanup_key ios key wc)) k' = getItem (fst wc) k'"
  by (simp add: cleanup_key_def Let_def getItem_cleanup_standard getItem_cleanup_habits_data
           split: option.splits sum.splits jsval.splits)

lemma getItem_fold_cleanup:
  "k' \<notin> set ks \<Longrightarrow> getItem (fst (fold (cleanup_key ios) ks wc)) k' = getItem (fst wc) k'"
  by (induction ks arbitrary: wc) (auto simp: getItem_cleanup_key)

lemma getItem_cleanupOldData:
  "k' \<notin> set historyKeys \<Longrightarrow> getItem (snd (cleanupOldData ios w)) k' = getItem w k'"
  using getItem_fold_cleanup [of k' historyKeys ios "(w, False)"]
  by (auto simp: cleanupOldData_def split: prod.splits)

lemma safeSetItem_unfold:
  "safeSetItem ios key value w =
     (if fst (setItem key value w) = None then (True, snd (setItem key value w))
      else let w2 = snd (cleanupOldData ios (snd (setItem key value w))) in
        if fst (cleanupOldData ios (snd (setItem key value w))) then
          (if fst (setItem key value w2) = None
           then (True, showToast ''Storage cleaned up to make room for new data.'' ''info'' (snd (setItem key value w2)))
           else (False, handleStorageFull ios (snd (setItem key value w2))))
        else (False, handleStorageFull ios w2))"
  using setItem_error [of key "value" w]
  by (auto simp: safeSetItem_def Let_def split: prod.splits option.splits)

lemma getItem_safeSetItem_other:
  "k' \<noteq> key \<Longrightarrow> k' \<notin> set historyKeys \<Longrightarrow>
   getItem (snd (safeSetItem ios key value w)) k' = getItem w k'"
  by (simp add: safeSetItem_unfold Let_def getItem_setItem_other getItem_cleanupOldData)

lemma getItem_safeSetItem_key:
  "fst (safeSetItem ios key value w) \<Longrightarrow> getItem (snd (safeSetItem ios key value w)) key = Some value"
  by (simp add: safeSetItem_unfold Let_def getItem_setItem split: if_splits)

lemma safeSetItem_room:
  "stored_size (put k v (items w)) \<le> capacity w \<Longrightarrow>
   safeSetItem ios k v w = (True, w\<lparr>items := put k v (items w), events := events w @ [Wrote k v]\<rparr>)"
  by (simp add: safeSetItem_def setItem_def)

section \<open>Import: the keys a falsy field leaves alone\<close>

lemma leaves_key_refl: "leaves_key key w w"
  by (simp add: leaves_key_def)

lemma leaves_key_trans:
  assumes "leaves_key key w w'" and "leaves_key key w' w''"
  shows "leaves_key key w w''"
proof -
  from assms(1) obtain n1 where 1: "getItem w' key = getItem w key" "events w' = events w @ n1"
    "Some key \<notin> event_key ` set n1" unfolding leaves_key_def by blast
  from assms(2) obtain n2 where 2: "getItem w'' key = getItem w' key" "events w'' = events w' @ n2"
    "Some key \<notin> event_key ` set n2" unfolding leaves_key_def by blast
  have "events w'' = events w @ (n1 @ n2)" using 1(2) 2(2) by simp
  moreover have "Some key \<notin> event_key ` set (n1 @ n2)" using 1(3) 2(3) by auto
  ultimately show ?thesis using 1(1) 2(1) unfolding leaves_key_def by metis
qed

lemma leaves_key_setItem: "k \<noteq> key \<Longrightarrow> leaves_key key w (snd (setItem k v w))"
  by (auto simp: leaves_key_def setItem_def Let_def getItem_def map_of_put)

lemma leaves_key_setItem_pair: "setItem k v w = (r, w') \<Longrightarrow> k \<noteq> key \<Longrightarrow> leaves_key key w w'"
  using leaves_key_setItem [of k key w v] by simp

lemma leaves_key_showToast: "leaves_key key w (showToast m t w)"
  by (simp add: leaves_key_def showToast_def getItem_def)

lemma leaves_key_handleStorageFull: "leaves_key key w (handleStorageFull ios w)"
  by (simp add: handleStorageFull_def leaves_key_showToast)

lemma leaves_key_cleanup_standard:
  "k \<noteq> key \<Longrightarrow> leaves_key key w (fst (cleanup_standard ios k h w c))"
  by (auto simp: cleanup_standard_def leaves_key_refl leaves_key_setItem_pair
           split: sum.splits option.splits prod.splits)

lemma leaves_key_cleanup_habits_data:
  "k \<noteq> key \<Longrightarrow> leaves_key key w (fst (cleanup_habits_data ios k hs w c))"
  by (auto simp: cleanup_habits_data_def leaves_key_refl leaves_key_setItem
           split: option.splits prod.splits)

lemma leaves_key_cleanup_key:
  "k \<noteq> key \<Longrightarrow> leaves_key key (fst wc) (fst (cleanup_key ios k wc))"
  by (simp add: cleanup_key_def Let_def leaves_key_refl leaves_key_cleanup_standard
        leaves_key_cleanup_habits_data split: option.splits sum.splits jsval.splits)

lemma leaves_key_fold_cleanup:
  "key \<notin> set ks \<Longrightarrow> leaves_key key (fst wc) (fst (fold (cleanup_key ios) ks wc))"
proof (induction ks arbitrary: wc)
  case Nil
  show ?case by (simp add: leaves_key_refl)
next
  case (Cons k ks)
  have 1: "leaves_key key (fst wc) (fst (cleanup_key ios k wc))"
    using Cons.prems by (intro leaves_key_cleanup_key) auto
  have 2: "leaves_key key (fst (cleanup_key ios k wc))
             (fst (fold (cleanup_key ios) ks (cleanup_key ios k wc)))"
    using Cons.prems by (intro Cons.IH) simp
  show ?case using leaves_key_trans [OF 1 2] by simp
qed

lemma leaves_key_cleanupOldData:
  "key \<notin> set historyKeys \<Longrightarrow> leaves_key key w (snd (cleanupOldData ios w))"
  using leaves_key_fold_cleanup [of key historyKeys "(w, False)" ios]
  by (auto simp: cleanupOldData_def split: prod.splits)

lemma leaves_key_safeSetItem:
  assumes "k \<noteq> key" and "key \<notin> set historyKeys"
  shows "leaves_key key w (snd (safeSetItem ios k v w))"
proof -
  let ?w1 = "snd (setItem k v w)"
  let ?w2 = "snd (cleanupOldData ios ?w1)"
  let ?w3 = "snd (setItem k v ?w2)"
  have 1: "leaves_key key w ?w1" using assms(1) by (rule leaves_key_setItem)
  have 2: "leaves_key key w ?w2"
    using leaves_key_trans [OF 1 leaves_key_cleanupOldData [OF assms(2)]] .
  have 3: "leaves_key key w ?w3"
    using leaves_key_trans [OF 2 leaves_key_setItem [OF assms(1)]] .
  show ?thesis
    unfolding safeSetItem_unfold Let_def
    using 1 leaves_key_trans [OF 2 leaves_key_handleStorageFull]
      leaves_key_trans [OF 3 leaves_key_handleStorageFull]
      leaves_key_trans [OF 3 leaves_key_showToast]
    by simp
qed

lemma leaves_key_import_step:
  assumes "key \<notin> set historyKeys"
    and "k \<noteq> key \<or> (\<exists>sec v. member imp section = Inr sec \<and> member sec field = Inr v \<and> \<not> js_truthy v)"
  shows "leaves_key key w (snd (import_step ios imp g c section field k failure w))"
proof (cases "k = key")
  case False
  have "leaves_key key w (snd (safeSetItem ios k v w))" for v
    using False assms(1) by (rule leaves_key_safeSetItem)
  then have "safeSetItem ios k v w = (ok, w') \<Longrightarrow> leaves_key key w w'" for v ok w'
    by (metis snd_conv)
  then show ?thesis
    by (auto simp: import_step_def leaves_key_refl split: sum.splits prod.splits)
next
  case True
  with assms(2) show ?thesis
    by (auto simp: import_step_def leaves_key_refl split: sum.splits prod.splits)
qed

lemma leaves_key_run_steps:
  assumes "\<And>step w. step \<in> set steps \<Longrightarrow> leaves_key key w (snd (step w))"
  shows "leaves_key key w (snd (run_steps steps w))"
  using assms
proof (induction steps arbitrary: w)
  case Nil
  then show ?case by (simp add: leaves_key_refl)
next
  case (Cons step steps)
  have s: "leaves_key key w (snd (step w))" using Cons.prems by simp
  show ?case
  proof (cases "step w")
    case (Pair r w')
    with s have w': "leaves_key key w w'" by simp
    show ?thesis
    proof (cases r)
      case None
      have "leaves_key key w' (snd (run_steps steps w'))"
        using Cons.prems by (intro Cons.IH) simp
      with Pair None leaves_key_trans [OF w'] show ?thesis by simp
    next
      case (Some e)
      with Pair w' show ?thesis by simp
    qed
  qed
qed

lemma JSON_stringify_nonempty:
  "JSON_stringify (Obj ps) \<noteq> []" "JSON_stringify (Arr xs) \<noteq> []"
  by simp_all

lemma parsed_snapshot:
  "parseCSVData now csvData = Inr snapshot \<Longrightarrow> \<exists>d. snapshot = snapshot_of d"
  by (auto simp: parseCSVData_def Let_def split: if_splits sum.splits)

lemma falsy_parsed_field:
  assumes "(section, field, key) \<in> set field_keys"
    and "member (snapshot_of d) section = Inr sec"
    and "member sec field = Inr v"
    and "\<not> js_truthy v"
  shows "key \<notin> set historyKeys"
  using assms
  by (auto simp: field_keys_def snapshot_of_def historyKeys_def simp del: JSON_stringify.simps
           simp add: JSON_stringify_nonempty)

text \<open>
  C10. In a snapshot that \<open>parseCSVData\<close> returned, let a field that \<open>performDataImport\<close>
  applies be falsy: \<open>null\<close>, the empty string, or \<open>undefined\<close> for a row that was too
  short. Then after the import the field's storage key holds what it held before, and
  among the calls of \<open>setItem\<close> the import made, accepted or refused, none names that
  key; this is so whether the import succeeds or fails. (The six structured fields of a
  parsed snapshot are JSON texts and never falsy, so the key is a goal, an intake, the
  theme or the reminder, which \<open>cleanupOldData\<close> does not touch either.)
\<close>

theorem falsy_field_not_written:
  assumes parsed: "parseCSVData now csvData = Inr snapshot"
    and field: "(section, field, key) \<in> set field_keys"
    and sec: "member snapshot section = Inr sec"
    and v: "member sec field = Inr v"
    and falsy: "\<not> js_truthy v"
  shows "getItem (snd (performDataImport ios snapshot w)) key = getItem w key
         \<and> (\<exists>new. events (snd (performDataImport ios snapshot w)) = events w @ new
                  \<and> Some key \<notin> event_key ` set new)"
proof -
  from parsed obtain d where d: "snapshot = snapshot_of d" using parsed_snapshot by blast
  have nh: "key \<notin> set historyKeys"
    using falsy_parsed_field [OF field sec [unfolded d] v falsy] .
  have run: "leaves_key key w (snd (run_steps (import_steps ios snapshot) w))"
  proof (rule leaves_key_run_steps)
    fix step w'
    assume "step \<in> set (import_steps ios snapshot)"
    then show "leaves_key key w' (snd (step w'))"
      using field sec v falsy nh
      by (auto simp: import_steps_def field_keys_def intro!: leaves_key_import_step)
  qed
  have "leaves_key key w (snd (performDataImport ios snapshot w))"
  proof (cases "run_steps (import_steps ios snapshot) w")
    case (Pair r w')
    with run have w': "leaves_key key w w'" by simp
    show ?thesis
      using Pair w' leaves_key_trans [OF w' leaves_key_showToast]
      by (cases r) (simp_all add: performDataImport_def)
  qed
  then show ?thesis unfolding leaves_key_def .
qed

lemma goal_file_parse: "parseCSVData ''T'' goal_file = Inr goal_snapshot"
  unfolding goal_file_def header_line_def goal_snapshot_def by code_simp

lemma goal_snapshot_members:
  "member goal_snapshot ''water''
     = Inr (Obj [(''goal'', Str []), (''intake'', Str ''7''), (''history'', Str ''{}'')])"
  "member goal_snapshot ''protein''
     = Inr (Obj [(''goal'', Null), (''intake'', Null), (''history'', Str ''{}'')])"
  "member goal_snapshot ''workout''
     = Inr (Obj [(''state'', Str ''{}''), (''count'', Str ''{}''), (''history'', Str ''{}'')])"
  "member goal_snapshot ''habits'' = Inr (Obj [(''data'', Str ''[]'')])"
  "member goal_snapshot ''settings'' = Inr (Obj [(''theme'', Null), (''reminder'', Null)])"
  by (simp_all add: goal_snapshot_def)

lemma goal_import:
  "performDataImport False goal_snapshot goal_store =
     (True, \<lparr>items = [(''goal_water'', ''1500''), (''intake_water'', ''7''),
                      (''history_water'', ''{}''), (''history_protein'', ''{}''),
                      (''workout_state'', ''{}''), (''workout_count'', ''{}''),
                      (''workout_history'', ''{}''), (''habits_data'', ''[]'')],
             capacity = 5242880,
             events = [Wrote ''intake_water'' ''7'', Wrote ''history_water'' ''{}'',
                       Wrote ''history_protein'' ''{}'', Wrote ''workout_state'' ''{}'',
                       Wrote ''workout_count'' ''{}'', Wrote ''workout_history'' ''{}'',
                       Wrote ''habits_data'' ''[]'']\<rparr>)"
  by (simp add: performDataImport_def import_steps_def import_step_def goal_snapshot_members
        safeSetItem_room goal_store_def stored_size_def)

theorem falsy_field_not_written_witness:
  "parseCSVData ''T'' goal_file = Inr goal_snapshot
   \<and> (''water'', ''goal'', ''goal_water'') \<in> set field_keys
   \<and> member goal_snapshot ''water''
        = Inr (Obj [(''goal'', Str []), (''intake'', Str ''7''), (''history'', Str ''{}'')])
   \<and> member (Obj [(''goal'', Str []), (''intake'', Str ''7''), (''history'', Str ''{}'')]) ''goal''
        = Inr (Str [])
   \<and> \<not> js_truthy (Str [])
   \<and> getItem goal_store ''goal_water'' = Some ''1500''
   \<and> getItem (snd (performDataImport False goal_snapshot goal_store)) ''goal_water'' = Some ''1500''
   \<and> (\<exists>new. events (snd (performDataImport False goal_snapshot goal_store))
               = events goal_store @ new
            \<and> Some ''goal_water'' \<notin> event_key ` set new)
   \<and> performDataImport False goal_snapshot goal_store =
     (True, \<lparr>items = [(''goal_water'', ''1500''), (''intake_water'', ''7''),
                      (''history_water'', ''{}''), (''history_protein'', ''{}''),
                      (''workout_state'', ''{}''), (''workout_count'', ''{}''),
                      (''workout_history'', ''{}''), (''habits_data'', ''[]'')],
             capacity = 5242880,
             events = [Wrote ''intake_water'' ''7'', Wrote ''history_water'' ''{}'',
                       Wrote ''history_protein'' ''{}'', Wrote ''workout_state'' ''{}'',
                       Wrote ''workout_count'' ''{}'', Wrote ''workout_history'' ''{}'',
                       Wrote ''habits_data'' ''[]'']\<rparr>)"
proof -
  have 1: "parseCSVData ''T'' goal_file = Inr goal_snapshot" by (rule goal_file_parse)
  have 2: "(''water'', ''goal'', ''goal_water'') \<in> set field_keys"
    by (simp add: field_keys_def)
  have 3: "member goal_snapshot ''water''
        = Inr (Obj [(''goal'', Str []), (''intake'', Str ''7''), (''history'', Str ''{}'')])"
    by (rule goal_snapshot_members)
  have 4: "member (Obj [(''goal'', Str []), (''intake'', Str ''7''), (''history'', Str ''{}'')]) ''goal''
        = Inr (Str [])"
    by simp
  have 5: "\<not> js_truthy (Str [])" by simp
  have 6: "getItem goal_store ''goal_water'' = Some ''1500''"
    by (simp add: getItem_def goal_store_def)
  note T = falsy_field_not_written [OF 1 2 3 4 5, of False goal_store]
  have 7: "getItem (snd (performDataImport False goal_snapshot goal_store)) ''goal_water''
             = Some ''1500''"
    using T 6 by simp
  have 8: "\<exists>new. events (snd (performDataImport False goal_snapshot goal_store))
               = events goal_store @ new
            \<and> Some ''goal_water'' \<notin> event_key ` set new"
    using T by (rule conjunct2)
  show ?thesis by (intro conjI 1 2 3 4 5 6 7 8 goal_import)
qed

section \<open>A store that is full\<close>

lemma january_parse: "JSON_parse january_text = Inr january"
  unfolding january_text_def january_def by code_simp

lemma january_trim: "trim_dates 30 january = Inr (Some january_trimmed)"
  unfolding january_def january_trimmed_def by code_simp

lemma january_stringify: "JSON_stringify january_trimmed = january_trimmed_text"
  unfolding january_trimmed_def january_trimmed_text_def by code_simp

lemma january_lengths: "length january_text = 497" "length january_trimmed_text = 481"
  unfolding january_text_def january_trimmed_text_def by simp_all

lemma january_text_neq: "january_text \<noteq> []" "january_trimmed_text \<noteq> january_text"
  using january_lengths by auto

lemma january_is_Obj: "\<exists>ps. january = Obj ps"
  by (simp add: january_def)

lemma full_store_first_write:
  "setItem ''goal_water'' ''2000'' full_store =
     (Some (DOMException ''QuotaExceededError'' 22), full_store\<lparr>events := [Refused ''goal_water'' ''2000'']\<rparr>)"
  by (simp add: setItem_def full_store_def stored_size_def january_lengths)

lemma full_store_cleanup:
  "cleanupOldData True (full_store\<lparr>events := [Refused ''goal_water'' ''2000'']\<rparr>) =
     (True, \<lparr>items = [(''history_water'', january_trimmed_text)], capacity = 520,
             events = [Refused ''goal_water'' ''2000'', Wrote ''history_water'' january_trimmed_text]\<rparr>)"
proof -
  obtain ps where ps: "january = Obj ps" using january_is_Obj by blast
  have std: "cleanup_standard True ''history_water'' january (full_store\<lparr>events := [Refused ''goal_water'' ''2000'']\<rparr>) False
     = (\<lparr>items = [(''history_water'', january_trimmed_text)], capacity = 520,
             events = [Refused ''goal_water'' ''2000'', Wrote ''history_water'' january_trimmed_text]\<rparr>, True)"
    by (simp add: cleanup_standard_def daysToKeep_def january_trim january_stringify setItem_def
          full_store_def stored_size_def january_lengths)
  have k1: "cleanup_key True ''history_water'' (full_store\<lparr>events := [Refused ''goal_water'' ''2000'']\<rparr>, False)
     = (\<lparr>items = [(''history_water'', january_trimmed_text)], capacity = 520,
             events = [Refused ''goal_water'' ''2000'', Wrote ''history_water'' january_trimmed_text]\<rparr>, True)"
    using std by (simp add: cleanup_key_def getItem_def full_store_def january_text_neq january_parse ps)
  have absent: "\<And>k w c. getItem w k = None \<Longrightarrow> cleanup_key True k (w, c) = (w, c)"
    by (simp add: cleanup_key_def)
  show ?thesis
    by (simp add: cleanupOldData_def historyKeys_def k1 absent getItem_def)
qed


section \<open>\<open>safeSetItem\<close>: cleanup, then one more try\<close>

lemma cleanup_key_absent: "getItem w k = None \<Longrightarrow> cleanup_key ios k (w, c) = (w, c)"
  by (simp add: cleanup_key_def)

lemma cleanupOldData_empty: "items w = [] \<Longrightarrow> cleanupOldData ios w = (False, w)"
  by (simp add: cleanupOldData_def historyKeys_def cleanup_key_absent getItem_def)

lemma safeSetItem_no_room:
  assumes "items w = []" and "capacity w < length k + length v"
  shows "safeSetItem ios k v w = (False, handleStorageFull ios (w\<lparr>events := events w @ [Refused k v]\<rparr>))"
proof -
  have 1: "setItem k v w = (Some (DOMException ''QuotaExceededError'' 22), w\<lparr>events := events w @ [Refused k v]\<rparr>)"
    using assms by (simp add: setItem_def stored_size_def)
  have 2: "cleanupOldData ios (w\<lparr>events := events w @ [Refused k v]\<rparr>) = (False, w\<lparr>events := events w @ [Refused k v]\<rparr>)"
    using assms(1) by (simp add: cleanupOldData_empty)
  show ?thesis unfolding safeSetItem_def 1 by (simp add: is_quota_error_def 2)
qed

text \<open>
  C5, as the code has it. \<open>safeSetItem\<close> first writes directly. When that write is refused
  for lack of room it runs \<open>cleanupOldData\<close>; only when the cleanup reports that it trimmed
  something is the write tried again, once. When the cleanup trimmed nothing, or the
  second try is refused too, it returns \<open>false\<close> after showing the storage-full toast. A
  result of \<open>true\<close> means the value is stored under the key; a result of \<open>false\<close> always
  comes with the storage-full toast as the last thing shown.
\<close>

theorem safeSetItem_cleanup_then_retry:
  "(fst (setItem key value w) = None \<longrightarrow>
      safeSetItem ios key value w = (True, snd (setItem key value w)))
   \<and> (fst (setItem key value w) \<noteq> None \<longrightarrow>
        (let w1 = snd (setItem key value w);
             cleaned = fst (cleanupOldData ios w1);
             w2 = snd (cleanupOldData ios w1)
         in (\<not> cleaned \<longrightarrow> safeSetItem ios key value w = (False, handleStorageFull ios w2))
          \<and> (cleaned \<and> fst (setItem key value w2) = None \<longrightarrow>
               safeSetItem ios key value w =
                 (True, showToast ''Storage cleaned up to make room for new data.'' ''info''
                          (snd (setItem key value w2))))
          \<and> (cleaned \<and> fst (setItem key value w2) \<noteq> None \<longrightarrow>
               safeSetItem ios key value w = (False, handleStorageFull ios (snd (setItem key value w2))))))
   \<and> (fst (safeSetItem ios key value w) \<longrightarrow>
        getItem (snd (safeSetItem ios key value w)) key = Some value)
   \<and> (\<not> fst (safeSetItem ios key value w) \<longrightarrow>
        last (events (snd (safeSetItem ios key value w))) =
          Toast (if ios then ''Storage full. Please export your data and clear some history.''
                 else ''Storage limit reached. Please export and clear some data.'') ''error'')"
proof -
  have last_full: "\<And>w'. last (events (handleStorageFull ios w')) =
          Toast (if ios then ''Storage full. Please export your data and clear some history.''
                 else ''Storage limit reached. Please export and clear some data.'') ''error''"
    by (simp add: handleStorageFull_def showToast_def)
  have A: "fst (setItem key value w) = None \<longrightarrow>
      safeSetItem ios key value w = (True, snd (setItem key value w))"
    by (simp add: safeSetItem_unfold)
  have B: "fst (setItem key value w) \<noteq> None \<longrightarrow>
        (let w1 = snd (setItem key value w);
             cleaned = fst (cleanupOldData ios w1);
             w2 = snd (cleanupOldData ios w1)
         in (\<not> cleaned \<longrightarrow> safeSetItem ios key value w = (False, handleStorageFull ios w2))
          \<and> (cleaned \<and> fst (setItem key value w2) = None \<longrightarrow>
               safeSetItem ios key value w =
                 (True, showToast ''Storage cleaned up to make room for new data.'' ''info''
                          (snd (setItem key value w2))))
          \<and> (cleaned \<and> fst (setItem key value w2) \<noteq> None \<longrightarrow>
               safeSetItem ios key value w = (False, handleStorageFull ios (snd (setItem key value w2)))))"
    by (simp add: safeSetItem_unfold Let_def)
  have C: "fst (safeSetItem ios key value w) \<longrightarrow>
        getItem (snd (safeSetItem ios key value w)) key = Some value"
    by (simp add: getItem_safeSetItem_key)
  have D: "\<not> fst (safeSetItem ios key value w) \<longrightarrow>
        last (events (snd (safeSetItem ios key value w))) =
          Toast (if ios then ''Storage full. Please export your data and clear some history.''
                 else ''Storage limit reached. Please export and clear some data.'') ''error''"
  proof
    assume nf: "\<not> fst (safeSetItem ios key value w)"
    have "\<exists>w'. snd (safeSetItem ios key value w) = handleStorageFull ios w'"
      using nf unfolding safeSetItem_unfold [of ios key "value" w] Let_def
      by (auto split: if_splits)
    then obtain w' where "snd (safeSetItem ios key value w) = handleStorageFull ios w'" ..
    then show "last (events (snd (safeSetItem ios key value w))) =
          Toast (if ios then ''Storage full. Please export your data and clear some history.''
                 else ''Storage limit reached. Please export and clear some data.'') ''error''"
      using last_full [of w'] by simp
  qed
  from A B C D show ?thesis by blast
qed

theorem safeSetItem_cleanup_then_retry_witness:
  "fst (setItem ''goal_water'' ''2000'' full_store) \<noteq> None
   \<and> fst (cleanupOldData True (snd (setItem ''goal_water'' ''2000'' full_store)))
   \<and> fst (setItem ''goal_water'' ''2000''
              (snd (cleanupOldData True (snd (setItem ''goal_water'' ''2000'' full_store))))) = None
   \<and> fst (safeSetItem True ''goal_water'' ''2000'' full_store)
   \<and> getItem (snd (safeSetItem True ''goal_water'' ''2000'' full_store)) ''goal_water'' = Some ''2000''
   \<and> fst (setItem ''goal_water'' ''2000'' no_room) \<noteq> None
   \<and> \<not> fst (cleanupOldData False (snd (setItem ''goal_water'' ''2000'' no_room)))
   \<and> \<not> fst (safeSetItem False ''goal_water'' ''2000'' no_room)
   \<and> last (events (snd (safeSetItem False ''goal_water'' ''2000'' no_room)))
        = Toast ''Storage limit reached. Please export and clear some data.'' ''error''"
proof -
  have 1: "fst (setItem ''goal_water'' ''2000'' full_store) \<noteq> None"
    by (simp add: full_store_first_write)
  have 2: "fst (cleanupOldData True (snd (setItem ''goal_water'' ''2000'' full_store)))"
    by (simp add: full_store_first_write full_store_cleanup)
  have 3: "fst (setItem ''goal_water'' ''2000''
              (snd (cleanupOldData True (snd (setItem ''goal_water'' ''2000'' full_store))))) = None"
    unfolding full_store_first_write snd_conv full_store_cleanup
    by (simp add: setItem_def stored_size_def january_lengths)
  have 4: "fst (setItem ''goal_water'' ''2000'' no_room) \<noteq> None"
    by (simp add: setItem_def no_room_def stored_size_def)
  have 5: "\<not> fst (cleanupOldData False (snd (setItem ''goal_water'' ''2000'' no_room)))"
    by (simp add: setItem_def no_room_def stored_size_def cleanupOldData_empty)
  from safeSetItem_cleanup_then_retry [of "''goal_water''" "''2000''" full_store True]
       safeSetItem_cleanup_then_retry [of "''goal_water''" "''2000''" no_room False]
       1 2 3 4 5
  show ?thesis by (auto simp: Let_def)
qed

text \<open>
  The claim of C5 as stated fails when the cleanup frees nothing: the write is tried
  once, refused, and not tried again.
\<close>

theorem no_retry_counterexample:
  "safeSetItem False ''goal_water'' ''2000'' no_room =
     (False, \<lparr>items = [], capacity = 0,
              events = [Refused ''goal_water'' ''2000'',
                        Toast ''Storage limit reached. Please export and clear some data.'' ''error'']\<rparr>)"
  by (simp add: safeSetItem_no_room no_room_def handleStorageFull_def showToast_def)

section \<open>Import: a settings write that fails\<close>

lemma settings_file_parse: "parseCSVData ''T'' settings_file = Inr settings_snapshot"
  unfolding settings_file_def header_line_def settings_snapshot_def by code_simp

lemma empty_texts_parse: "JSON_parse ''{}'' = Inr (Obj [])" "JSON_parse ''[]'' = Inr (Arr [])"
  by code_simp+

lemma empty_histories_cleanup:
  "items w = empty_histories \<Longrightarrow> cleanupOldData ios w = (False, w)"
  by (simp add: cleanupOldData_def historyKeys_def cleanup_key_def getItem_def empty_histories_def
        empty_texts_parse cleanup_standard_def cleanup_habits_data_def trim_dates_def
        object_keys_def daysToKeep_def del: JSON_parse_def)

lemma empty_histories_refused:
  assumes "items w = empty_histories" and "capacity w = 92" and "k \<notin> fst ` set empty_histories"
    and "0 < length k + length v"
  shows "safeSetItem False k v w =
           (False, w\<lparr>events := events w @ [Refused k v,
                      Toast ''Storage limit reached. Please export and clear some data.'' ''error'']\<rparr>)"
proof -
  have "put k v empty_histories = empty_histories @ [(k, v)]"
    using assms(3) by (auto simp: empty_histories_def)
  then have 1: "setItem k v w = (Some (DOMException ''QuotaExceededError'' 22), w\<lparr>events := events w @ [Refused k v]\<rparr>)"
    using assms by (simp add: setItem_def stored_size_def empty_histories_def)
  have 2: "cleanupOldData False (w\<lparr>events := events w @ [Refused k v]\<rparr>) = (False, w\<lparr>events := events w @ [Refused k v]\<rparr>)"
    using assms(1) by (simp add: empty_histories_cleanup)
  show ?thesis
    unfolding safeSetItem_def 1
    by (simp add: is_quota_error_def 2 handleStorageFull_def showToast_def)
qed

lemma settings_snapshot_members:
  "member settings_snapshot ''water'' = Inr (Obj [(''goal'', Null), (''intake'', Null), (''history'', Str ''{}'')])"
  "member settings_snapshot ''protein'' = Inr (Obj [(''goal'', Null), (''intake'', Null), (''history'', Str ''{}'')])"
  "member settings_snapshot ''workout'' = Inr (Obj [(''state'', Str ''{}''), (''count'', Str ''{}''), (''history'', Str ''{}'')])"
  "member settings_snapshot ''habits'' = Inr (Obj [(''data'', Str ''[]'')])"
  "member settings_snapshot ''settings'' = Inr (Obj [(''theme'', Str ''dark''), (''reminder'', Str ''on'')])"
  by (simp_all add: settings_snapshot_def)

lemma run_steps_append:
  "run_steps (xs @ ys) w =
     (case run_steps xs w of (Some e, w') \<Rightarrow> (Some e, w') | (None, w') \<Rightarrow> run_steps ys w')"
  by (induction xs arbitrary: w) (auto split: prod.splits option.splits)

lemma settings_import_run:
  "run_steps (import_steps False settings_snapshot) small_store =
     (None, \<lparr>items = empty_histories, capacity = 92,
             events = [Wrote ''history_water'' ''{}'', Wrote ''history_protein'' ''{}'',
                       Wrote ''workout_state'' ''{}'', Wrote ''workout_count'' ''{}'',
                       Wrote ''workout_history'' ''{}'', Wrote ''habits_data'' ''[]'',
                       Refused ''app_theme'' ''dark'',
                       Toast ''Storage limit reached. Please export and clear some data.'' ''error'',
                       Refused ''global_reminder'' ''on'',
                       Toast ''Storage limit reached. Please export and clear some data.'' ''error'']\<rparr>)"
proof -
  let ?e6 = "[Wrote ''history_water'' ''{}'', Wrote ''history_protein'' ''{}'',
              Wrote ''workout_state'' ''{}'', Wrote ''workout_count'' ''{}'',
              Wrote ''workout_history'' ''{}'', Wrote ''habits_data'' ''[]'']"
  let ?full = "Toast ''Storage limit reached. Please export and clear some data.'' ''error''"
  have six: "run_steps (take 10 (import_steps False settings_snapshot)) small_store
               = (None, \<lparr>items = empty_histories, capacity = 92, events = ?e6\<rparr>)"
    by (simp add: import_steps_def import_step_def settings_snapshot_members safeSetItem_room
          small_store_def stored_size_def empty_histories_def)
  have theme: "safeSetItem False ''app_theme'' ''dark''
                 \<lparr>items = empty_histories, capacity = 92, events = ?e6\<rparr>
               = (False, \<lparr>items = empty_histories, capacity = 92,
                           events = ?e6 @ [Refused ''app_theme'' ''dark'', ?full]\<rparr>)"
    by (subst empty_histories_refused) (simp_all add: empty_histories_def)
  have reminder: "safeSetItem False ''global_reminder'' ''on''
                 \<lparr>items = empty_histories, capacity = 92,
                    events = ?e6 @ [Refused ''app_theme'' ''dark'', ?full]\<rparr>
               = (False, \<lparr>items = empty_histories, capacity = 92,
                           events = (?e6 @ [Refused ''app_theme'' ''dark'', ?full])
                                    @ [Refused ''global_reminder'' ''on'', ?full]\<rparr>)"
    by (subst empty_histories_refused) (simp_all add: empty_histories_def)
  have two: "run_steps (drop 10 (import_steps False settings_snapshot))
               \<lparr>items = empty_histories, capacity = 92, events = ?e6\<rparr>
             = (None, \<lparr>items = empty_histories, capacity = 92,
                        events = (?e6 @ [Refused ''app_theme'' ''dark'', ?full])
                                 @ [Refused ''global_reminder'' ''on'', ?full]\<rparr>)"
    unfolding import_steps_def drop_Suc_Cons drop_0 numeral_eq_Suc pred_numeral_simps
      run_steps.simps import_step_def settings_snapshot_members sum.case
    by (simp add: theme reminder del: append.simps)
  have "run_steps (import_steps False settings_snapshot) small_store
          = run_steps (take 10 (import_steps False settings_snapshot)
                       @ drop 10 (import_steps False settings_snapshot)) small_store"
    by simp
  also have "\<dots> = (None, \<lparr>items = empty_histories, capacity = 92,
                        events = (?e6 @ [Refused ''app_theme'' ''dark'', ?full])
                                 @ [Refused ''global_reminder'' ''on'', ?full]\<rparr>)"
    unfolding run_steps_append six using two by simp
  finally show ?thesis by simp
qed

text \<open>
  C7 at a failing input. The imported file holds the two settings rows and nothing else,
  so the snapshot \<open>parseCSVData\<close> returns has the six structured texts \<open>{}\<close> and \<open>[]\<close>
  and the two settings. The store is empty and has room for exactly those six texts under
  their keys. The six checked writes succeed. The write of the theme is refused, the
  cleanup finds nothing to trim and \<open>safeSetItem\<close> returns \<open>false\<close> after the storage-full
  toast; no failure is raised, the write of the reminder is attempted next and refused in
  the same way, and \<open>performDataImport\<close> returns \<open>true\<close> without an import-failure toast.
  The same happens, with nothing written at all, for an import object that has only the
  two settings and a store with no room.
\<close>

theorem settings_failure_not_raised:
  "parseCSVData ''T'' settings_file = Inr settings_snapshot
   \<and> performDataImport False settings_snapshot small_store =
     (True, \<lparr>items = [(''history_water'', ''{}''), (''history_protein'', ''{}''),
                      (''workout_state'', ''{}''), (''workout_count'', ''{}''),
                      (''workout_history'', ''{}''), (''habits_data'', ''[]'')],
             capacity = 92,
             events = [Wrote ''history_water'' ''{}'', Wrote ''history_protein'' ''{}'',
                       Wrote ''workout_state'' ''{}'', Wrote ''workout_count'' ''{}'',
                       Wrote ''workout_history'' ''{}'', Wrote ''habits_data'' ''[]'',
                       Refused ''app_theme'' ''dark'',
                       Toast ''Storage limit reached. Please export and clear some data.'' ''error'',
                       Refused ''global_reminder'' ''on'',
                       Toast ''Storage limit reached. Please export and clear some data.'' ''error'']\<rparr>)
   \<and> performDataImport False settings_only_import no_room =
     (True, \<lparr>items = [], capacity = 0,
             events = [Refused ''app_theme'' ''dark'',
                       Toast ''Storage limit reached. Please export and clear some data.'' ''error'',
                       Refused ''global_reminder'' ''on'',
                       Toast ''Storage limit reached. Please export and clear some data.'' ''error'']\<rparr>)"
proof -
  have m: "member settings_only_import ''water''
             = Inr (Obj [(''goal'', Null), (''intake'', Null), (''history'', Null)])"
     "member settings_only_import ''protein''
             = Inr (Obj [(''goal'', Null), (''intake'', Null), (''history'', Null)])"
     "member settings_only_import ''workout'' = Inr Undefined"
     "member settings_only_import ''habits'' = Inr Undefined"
     "member settings_only_import ''settings''
             = Inr (Obj [(''theme'', Str ''dark''), (''reminder'', Str ''on'')])"
    by (simp_all add: settings_only_import_def)
  have "run_steps (import_steps False settings_only_import) no_room =
     (None, \<lparr>items = [], capacity = 0,
             events = [Refused ''app_theme'' ''dark'',
                       Toast ''Storage limit reached. Please export and clear some data.'' ''error'',
                       Refused ''global_reminder'' ''on'',
                       Toast ''Storage limit reached. Please export and clear some data.'' ''error'']\<rparr>)"
    by (simp add: import_steps_def import_step_def m safeSetItem_no_room no_room_def
          handleStorageFull_def showToast_def)
  then have bare: "performDataImport False settings_only_import no_room =
     (True, \<lparr>items = [], capacity = 0,
             events = [Refused ''app_theme'' ''dark'',
                       Toast ''Storage limit reached. Please export and clear some data.'' ''error'',
                       Refused ''global_reminder'' ''on'',
                       Toast ''Storage limit reached. Please export and clear some data.'' ''error'']\<rparr>)"
    by (simp add: performDataImport_def)
  have parsed: "performDataImport False settings_snapshot small_store =
     (True, \<lparr>items = [(''history_water'', ''{}''), (''history_protein'', ''{}''),
                      (''workout_state'', ''{}''), (''workout_count'', ''{}''),
                      (''workout_history'', ''{}''), (''habits_data'', ''[]'')],
             capacity = 92,
             events = [Wrote ''history_water'' ''{}'', Wrote ''history_protein'' ''{}'',
                       Wrote ''workout_state'' ''{}'', Wrote ''workout_count'' ''{}'',
                       Wrote ''workout_history'' ''{}'', Wrote ''habits_data'' ''[]'',
                       Refused ''app_theme'' ''dark'',
                       Toast ''Storage limit reached. Please export and clear some data.'' ''error'',
                       Refused ''global_reminder'' ''on'',
                       Toast ''Storage limit reached. Please export and clear some data.'' ''error'']\<rparr>)"
    unfolding performDataImport_def settings_import_run by (simp add: empty_histories_def)
  show ?thesis by (intro conjI settings_file_parse parsed bare)
qed


section \<open>Export with a value that does not parse\<close>

lemma traverse_Inl:
  "Inl e \<in> set xs \<Longrightarrow> \<exists>e'. traverse (\<lambda>section. section) xs = Inl e'"
  by (induction xs) (auto split: sum.splits)

lemma JSON_parse_empty_object: "JSON_parse ''{}'' = Inr (Obj [])"
  by code_simp

lemma dated_rows_empty: "dated_rows f (Obj []) = Inr []"
  by (simp add: dated_rows_def)

lemma stored_rows_corrupt:
  assumes "getItem w k = Some t" and "t \<noteq> []" and "JSON_parse t = Inl e"
  shows "stored_rows w k d f = Inl e"
  using assms by (simp add: stored_rows_def parse_item_def)

lemma corrupt_parse: "JSON_parse ''{'' = Inl SyntaxError"
  by code_simp

text \<open>
  C2, as the code has it. A \<open>history_protein\<close> that is absent or empty is read as the
  empty mapping and gives no row. One that is present and does not parse makes
  \<open>JSON.parse\<close> throw inside \<open>convertDataToCSV\<close>: no text is produced, and \<open>exportData\<close>
  catches the error, shows it, and hands out no file.
\<close>

theorem corrupt_history_protein_aborts_export:
  "(getItem w ''history_protein'' = None \<or> getItem w ''history_protein'' = Some [] \<longrightarrow>
      stored_rows w ''history_protein'' ''{}'' (dated_rows (intake_row ''protein_history'')) = Inr [])
   \<and> (\<forall>t e. getItem w ''history_protein'' = Some t \<and> t \<noteq> [] \<and> JSON_parse t = Inl e \<longrightarrow>
         (\<exists>e'. convertDataToCSV now w = Inl e'
               \<and> exportData now w =
                   (None, showToast (''Error exporting data: '' @ error_message e') ''error'' w)))"
proof -
  have A: "getItem w ''history_protein'' = None \<or> getItem w ''history_protein'' = Some [] \<longrightarrow>
      stored_rows w ''history_protein'' ''{}'' (dated_rows (intake_row ''protein_history'')) = Inr []"
    by (auto simp: stored_rows_def parse_item_def JSON_parse_empty_object dated_rows_empty)
  have B: "\<exists>e'. convertDataToCSV now w = Inl e'
               \<and> exportData now w =
                   (None, showToast (''Error exporting data: '' @ error_message e') ''error'' w)"
    if t: "getItem w ''history_protein'' = Some t" "t \<noteq> []" "JSON_parse t = Inl e" for t e
  proof -
    have "stored_rows w ''history_protein'' ''{}'' (dated_rows (intake_row ''protein_history'')) = Inl e"
      using t by (rule stored_rows_corrupt)
    then have "Inl e \<in> set (csv_sections now w)"
      by (simp add: csv_sections_def)
    then obtain e' where "traverse (\<lambda>section. section) (csv_sections now w) = Inl e'"
      using traverse_Inl by blast
    then have "convertDataToCSV now w = Inl e'"
      by (simp add: convertDataToCSV_def)
    then show ?thesis by (simp add: exportData_def)
  qed
  from A B show ?thesis by blast
qed

theorem corrupt_history_protein_aborts_export_witness:
  "getItem corrupt_store ''history_protein'' = Some ''{'' \<and> ''{'' \<noteq> [] \<and> JSON_parse ''{'' = Inl SyntaxError
   \<and> fst (exportData ''2024-01-02T10:00:00.000Z'' corrupt_store) = None"
proof -
  have 1: "getItem corrupt_store ''history_protein'' = Some ''{''"
    by (simp add: getItem_def corrupt_store_def)
  have 2: "''{'' \<noteq> []" by simp
  from corrupt_history_protein_aborts_export [of corrupt_store "''2024-01-02T10:00:00.000Z''"]
    1 2 corrupt_parse
  show ?thesis by fastforce
qed

lemma corrupt_store_convert:
  "convertDataToCSV ''2024-01-02T10:00:00.000Z'' corrupt_store = Inl SyntaxError"
proof -
  have g: "getItem corrupt_store ''history_water'' = None"
          "getItem corrupt_store ''history_protein'' = Some ''{''"
    by (simp_all add: getItem_def corrupt_store_def)
  have 1: "stored_rows corrupt_store ''history_water'' ''{}'' (dated_rows (intake_row ''water_history'')) = Inr []"
    by (simp add: stored_rows_def parse_item_def g JSON_parse_empty_object dated_rows_empty)
  have 2: "stored_rows corrupt_store ''history_protein'' ''{}'' (dated_rows (intake_row ''protein_history'')) = Inl SyntaxError"
    by (simp add: stored_rows_def parse_item_def g corrupt_parse)
  show ?thesis
    unfolding convertDataToCSV_def csv_sections_def 1 2 by simp
qed

text \<open>
  The claim of C2 as stated fails: with \<open>history_protein\<close> holding \<open>{\<close>, the export
  produces no file, although the water goal is stored and readable.
\<close>

theorem corrupt_history_protein_counterexample:
  "getItem corrupt_store ''history_protein'' = Some ''{''
   \<and> JSON_parse ''{'' = Inl SyntaxError
   \<and> exportData ''2024-01-02T10:00:00.000Z'' corrupt_store =
       (None, corrupt_store\<lparr>events := [Toast ''Error exporting data: SyntaxError'' ''error'']\<rparr>)"
  by (simp add: exportData_def corrupt_store_convert corrupt_parse showToast_def)
     (simp add: getItem_def corrupt_store_def)


section \<open>Habit rows and padding\<close>

lemma pad_loop_eq:
  "pad_loop n data = data @ replicate (nat (n + 1 - int (length data))) placeholder"
proof (induction n data rule: pad_loop.induct)
  case (1 n data)
  show ?case
  proof (cases "int (length data) \<le> n")
    case True
    have k: "nat (n + 1 - int (length data)) = Suc (nat (n + 1 - int (length (data @ [placeholder]))))"
      using True by simp
    have "pad_loop n data = pad_loop n (data @ [placeholder])"
      using True by (subst pad_loop.simps) simp
    also have "\<dots> = (data @ [placeholder]) @ replicate (nat (n + 1 - int (length (data @ [placeholder])))) placeholder"
      using "1.IH" [OF True] .
    also have "\<dots> = data @ replicate (nat (n + 1 - int (length data))) placeholder"
      unfolding k by simp
    finally show ?thesis .
  next
    case False
    then show ?thesis by (subst pad_loop.simps) simp
  qed
qed

lemma habit_row_beyond:
  assumes "parseInt key = Num (int n)" and "length data \<le> n"
  shows "habit_row key habitName habitColor data =
           Inr (data @ replicate (n - length data) placeholder
                 @ [Obj [(''name'', habitName), (''color'', habitColor), (''history'', Obj [])]])"
proof -
  let ?pre = "data @ replicate (n - length data) placeholder"
  have k: "nat (int n + 1 - int (length data)) = Suc (n - length data)"
    using assms(2) by arith
  have pad: "pad_habits (Num (int n)) data = ?pre @ [placeholder]"
    by (simp add: pad_habits_def pad_loop_eq k replicate_append_same)
  have len: "length ?pre = n" using assms(2) by simp
  have nth: "(?pre @ [placeholder]) ! n = placeholder"
    using len by (metis nth_append_length)
  have upd: "(?pre @ [placeholder])[n := v] = ?pre @ [v]" for v
    using len by (metis list_update_length)
  have get: "array_get (?pre @ [placeholder]) (Num (int n)) = placeholder"
    using len nth by (simp add: array_get_def)
  have set: "array_set (?pre @ [placeholder]) (Num (int n)) v = ?pre @ [v]" for v
    using len upd by (simp add: array_set_def)
  show ?thesis
    unfolding habit_row_def assms(1) Let_def pad get set
    by (simp add: placeholder_def)
qed


lemma list_all_put:
  "list_all P ps \<Longrightarrow> P (k, v) \<Longrightarrow> list_all P (put k v ps)"
  by (induction ps) auto

lemma history_push_ok:
  assumes "\<not> inherited (to_string date)" and "list_all (\<lambda>p. is_array (snd p)) h"
  shows "\<exists>h'. history_push date entry h = Inr h' \<and> list_all (\<lambda>p. is_array (snd p)) h'"
proof (cases "map_of h (to_string date)")
  case None
  with assms show ?thesis by (simp add: history_push_def)
next
  case (Some v)
  then have "(to_string date, v) \<in> set h" by (rule map_of_SomeD)
  with assms(2) have "is_array v" by (auto simp: list_all_iff)
  then obtain es where "v = Arr es" by (cases v) auto
  with Some assms(2) show ?thesis by (simp add: history_push_def list_all_put)
qed

lemma process_row_other_habits:
  "\<not> habit_kind hm r \<Longrightarrow> process_row hm r d = Inr d' \<Longrightarrow> habits_data d' = habits_data d"
  by (auto simp: process_row_def habit_kind_def Let_def split: if_splits sum.splits)

lemma process_row_other_ok:
  assumes "\<not> habit_kind hm r" and "\<not> inherited_date hm r" and "dated_arrays d"
  shows "\<exists>d'. process_row hm r d = Inr d' \<and> dated_arrays d'"
proof (cases "row_is_blank r")
  case True
  with assms(3) show ?thesis by (simp add: process_row_def)
next
  case False
  let ?row = "parseCSVRow r"
  let ?t = "cell hm ?row ''data_type''"
  have nh: "?t \<noteq> Str ''habit''" "?t \<noteq> Str ''habit_history''"
    using assms(1) False by (auto simp: habit_kind_def)
  consider (w) "?t = Str ''water_history''" | (p) "?t = Str ''protein_history''"
    | (x) "?t = Str ''workout_history''"
    | (o) "?t \<noteq> Str ''water_history''" "?t \<noteq> Str ''protein_history''" "?t \<noteq> Str ''workout_history''"
    by blast
  then show ?thesis
  proof cases
    case w
    then have ni: "\<not> inherited (to_string (cell hm ?row ''date''))"
      using assms(2) False by (simp add: inherited_date_def)
    from history_push_ok [OF ni, of "water_history d"] assms(3)
    obtain h' where "history_push (cell hm ?row ''date'')
        (Obj [(''amount'', parseInt (cell hm ?row ''amount'')), (''timestamp'', cell hm ?row ''timestamp'')])
        (water_history d) = Inr h'" "list_all (\<lambda>p. is_array (snd p)) h'"
      unfolding dated_arrays_def by blast
    with w False assms(3) show ?thesis
      by (simp add: process_row_def Let_def dated_arrays_def)
  next
    case p
    then have ni: "\<not> inherited (to_string (cell hm ?row ''date''))"
      using assms(2) False by (simp add: inherited_date_def)
    from history_push_ok [OF ni, of "protein_history d"] assms(3)
    obtain h' where "history_push (cell hm ?row ''date'')
        (Obj [(''amount'', parseInt (cell hm ?row ''amount'')), (''timestamp'', cell hm ?row ''timestamp'')])
        (protein_history d) = Inr h'" "list_all (\<lambda>p. is_array (snd p)) h'"
      unfolding dated_arrays_def by blast
    with p False assms(3) show ?thesis
      by (simp add: process_row_def Let_def dated_arrays_def)
  next
    case x
    then have ni: "\<not> inherited (to_string (cell hm ?row ''date''))"
      using assms(2) False by (simp add: inherited_date_def)
    from history_push_ok [OF ni, of "workout_history d"] assms(3)
    obtain h' where "history_push (cell hm ?row ''date'')
        (Obj [(''type'', cell hm ?row ''type''), (''count'', parseInt (cell hm ?row ''count'')),
              (''timestamp'', cell hm ?row ''timestamp'')])
        (workout_history d) = Inr h'" "list_all (\<lambda>p. is_array (snd p)) h'"
      unfolding dated_arrays_def by blast
    with x False assms(3) show ?thesis
      by (simp add: process_row_def Let_def dated_arrays_def)
  next
    case o
    with nh False assms(3) show ?thesis
      by (simp add: process_row_def Let_def dated_arrays_def)
  qed
qed

lemma process_rows_other_habits:
  "\<forall>r \<in> set rs. \<not> habit_kind hm r \<Longrightarrow> process_rows hm rs d = Inr d' \<Longrightarrow>
   habits_data d' = habits_data d"
proof (induction rs arbitrary: d)
  case Nil
  then show ?case by simp
next
  case (Cons r rs)
  from Cons.prems(2) obtain d1 where d1: "process_row hm r d = Inr d1" "process_rows hm rs d1 = Inr d'"
    by (auto split: sum.splits)
  have "habits_data d1 = habits_data d"
    using Cons.prems(1) d1(1) process_row_other_habits [of hm r d d1] by simp
  moreover have "habits_data d' = habits_data d1"
    using Cons.IH [OF _ d1(2)] Cons.prems(1) by simp
  ultimately show ?case by simp
qed

lemma process_rows_other_ok:
  "\<forall>r \<in> set rs. \<not> habit_kind hm r \<and> \<not> inherited_date hm r \<Longrightarrow> dated_arrays d \<Longrightarrow>
   \<exists>d'. process_rows hm rs d = Inr d' \<and> dated_arrays d'"
proof (induction rs arbitrary: d)
  case Nil
  then show ?case by simp
next
  case (Cons r rs)
  from process_row_other_ok [of hm r d] Cons.prems
  obtain d1 where d1: "process_row hm r d = Inr d1" "dated_arrays d1" by auto
  from Cons.IH [OF _ d1(2)] Cons.prems(1)
  obtain d' where "process_rows hm rs d1 = Inr d'" "dated_arrays d'" by auto
  with d1(1) show ?case by simp
qed


lemma initial_dated_arrays: "dated_arrays (initial_data now)"
  by (simp add: dated_arrays_def initial_data_def)

lemma process_row_habit:
  assumes "\<not> row_is_blank r" and "cell hm (parseCSVRow r) ''data_type'' = Str ''habit''"
  shows "process_row hm r d =
           (case habit_row (cell hm (parseCSVRow r) ''key'') (cell hm (parseCSVRow r) ''name'')
                   (cell hm (parseCSVRow r) ''color'') (habits_data d) of
              Inl e \<Rightarrow> Inl e
            | Inr hs \<Rightarrow> Inr (d\<lparr>habits_data := hs\<rparr>))"
  using assms by (simp add: process_row_def Let_def)

lemma pad_habits_eq:
  "pad_habits (Num m) data = data @ replicate (nat (m + 1 - int (length data))) placeholder"
  by (simp add: pad_habits_def pad_loop_eq)

lemma habit_history_row_beyond:
  assumes "parseInt (Str (hd (split_on (CHR ''_'') k))) = Num (int n)" and "length data \<le> n"
  shows "habit_history_row (Str k) status data =
           Inr (data @ replicate (n - length data) placeholder
                 @ [Obj [(''history'',
                          Obj (js_assign (to_string (if 1 < length (split_on (CHR ''_'') k)
                                                     then Str (split_on (CHR ''_'') k ! 1)
                                                     else Undefined))
                                 status []))]])"
proof -
  let ?pre = "data @ replicate (n - length data) placeholder"
  have k: "nat (int n + 1 - int (length data)) = Suc (n - length data)"
    using assms(2) by arith
  have pad: "pad_habits (Num (int n)) data = ?pre @ [placeholder]"
    by (simp add: pad_habits_def pad_loop_eq k replicate_append_same)
  have len: "length ?pre = n" using assms(2) by simp
  have nth: "(?pre @ [placeholder]) ! n = placeholder"
    using len by (metis nth_append_length)
  have upd: "(?pre @ [placeholder])[n := v] = ?pre @ [v]" for v
    using len by (metis list_update_length)
  have get: "array_get (?pre @ [placeholder]) (Num (int n)) = placeholder"
    using len nth by (simp add: array_get_def)
  have set: "array_set (?pre @ [placeholder]) (Num (int n)) v = ?pre @ [v]" for v
    using len upd by (simp add: array_set_def)
  show ?thesis
    unfolding habit_history_row_def jsval.case assms(1) Let_def pad get set
    by (simp add: placeholder_def)
qed

lemma padded_kept:
  "length data \<le> length (pad_habits idx data)
   \<and> (\<forall>i<length data. pad_habits idx data ! i = data ! i)"
  by (cases idx) (simp_all add: pad_habits_def pad_loop_eq nth_append)

lemma array_set_kept:
  "length (array_set data (Num (int n)) v) = length data
   \<and> (\<forall>i<length data. i \<noteq> n \<longrightarrow> array_set data (Num (int n)) v ! i = data ! i)"
  by (simp add: array_set_def)

lemma padded_set_kept:
  "length data \<le> length (array_set (pad_habits (Num (int n)) data) (Num (int n)) v)
   \<and> (\<forall>i<length data. i \<noteq> n \<longrightarrow>
         array_set (pad_habits (Num (int n)) data) (Num (int n)) v ! i = data ! i)"
proof -
  let ?D = "pad_habits (Num (int n)) data"
  have D: "length data \<le> length ?D" "\<forall>i<length data. ?D ! i = data ! i"
    using padded_kept [of data "Num (int n)"] by simp_all
  have S: "length (array_set ?D (Num (int n)) v) = length ?D"
    "\<forall>i<length ?D. i \<noteq> n \<longrightarrow> array_set ?D (Num (int n)) v ! i = ?D ! i"
    using array_set_kept [of ?D n v] by simp_all
  show ?thesis using D S by auto
qed

lemma habit_row_kept:
  assumes "parseInt key = Num (int n)" and "habit_row key habitName habitColor data = Inr data'"
  shows "length data \<le> length data' \<and> (\<forall>i<length data. i \<noteq> n \<longrightarrow> data' ! i = data ! i)"
proof -
  from assms(2) obtain v where "data' = array_set (pad_habits (Num (int n)) data) (Num (int n)) v"
    unfolding habit_row_def assms(1) Let_def by (auto split: sum.splits)
  then show ?thesis using padded_set_kept [of data n v] by simp
qed

lemma habit_history_row_kept:
  assumes "parseInt (Str (hd (split_on (CHR ''_'') k))) = Num (int n)"
    and "habit_history_row (Str k) status data = Inr data'"
  shows "length data \<le> length data' \<and> (\<forall>i<length data. i \<noteq> n \<longrightarrow> data' ! i = data ! i)"
proof -
  from assms(2) have "(\<exists>v. data' = array_set (pad_habits (Num (int n)) data) (Num (int n)) v)
                      \<or> data' = pad_habits (Num (int n)) data"
    unfolding habit_history_row_def jsval.case assms(1) Let_def
    by (auto split: sum.splits jsval.splits)
  then show ?thesis
    using padded_set_kept [of data n] padded_kept [of data "Num (int n)"] by auto
qed


lemma member_snapshot_habits:
  "member (snapshot_of d) ''habits'' = Inr (Obj [(''data'', Str (JSON_stringify (Arr (habits_data d))))])"
  by (simp add: snapshot_of_def del: JSON_stringify.simps)

text \<open>
  C8. In a file whose only row of a habit kind is a \<open>habit\<close> row with key 5, every
  snapshot the parse returns holds, as \<open>habits.data\<close>, the JSON text of a sequence of
  length 6: five placeholders \<open>{history: {}}\<close> at the indices 0 to 4 and, at index 5, the
  row's name and colour with an empty history. The parse does return a snapshot unless a
  history row names a date that objects inherit from \<open>Object.prototype\<close>, the one thing
  that makes a row of another kind throw. In general a \<open>habit\<close> row or a \<open>habit_history\<close>
  row whose index is at or beyond the end of the sequence keeps the sequence as it is,
  appends placeholders up to the index and puts the new habit there; and whatever its
  index, such a row never shortens the sequence and leaves every habit at another index
  where and as it was. The index is below \<open>2^32 - 1\<close>, the most an array can hold.
\<close>

theorem sparse_habit_padding:
  assumes lines: "split_lines csvData = h # rs1 @ r # rs2"
    and hm: "hm = build_headerMap (parseCSVRow h)"
    and others: "\<forall>r' \<in> set (rs1 @ rs2). \<not> habit_kind hm r'"
    and row: "\<not> row_is_blank r" "cell hm (parseCSVRow r) ''data_type'' = Str ''habit''"
    and five: "parseInt (cell hm (parseCSVRow r) ''key'') = Num 5"
  shows "(\<forall>snapshot. parseCSVData now csvData = Inr snapshot \<longrightarrow>
            member snapshot ''habits'' =
              Inr (Obj [(''data'',
                 Str (JSON_stringify
                   (Arr [Obj [(''history'', Obj [])], Obj [(''history'', Obj [])],
                         Obj [(''history'', Obj [])], Obj [(''history'', Obj [])],
                         Obj [(''history'', Obj [])],
                         Obj [(''name'', cell hm (parseCSVRow r) ''name''),
                              (''color'', cell hm (parseCSVRow r) ''color''),
                              (''history'', Obj [])]])))]))
         \<and> ((\<forall>r' \<in> set (rs1 @ rs2). \<not> inherited_date hm r') \<longrightarrow>
              (\<exists>snapshot. parseCSVData now csvData = Inr snapshot))
         \<and> (\<forall>key habitName habitColor data n.
               parseInt key = Num (int n) \<and> length data \<le> n \<and> n < 4294967295 \<longrightarrow>
               habit_row key habitName habitColor data =
                 Inr (data @ replicate (n - length data) (Obj [(''history'', Obj [])])
                      @ [Obj [(''name'', habitName), (''color'', habitColor), (''history'', Obj [])]]))
         \<and> (\<forall>k status data n.
               parseInt (Str (hd (split_on (CHR ''_'') k))) = Num (int n) \<and> length data \<le> n
               \<and> n < 4294967295 \<longrightarrow>
               habit_history_row (Str k) status data =
                 Inr (data @ replicate (n - length data) (Obj [(''history'', Obj [])])
                      @ [Obj [(''history'',
                              Obj (js_assign (to_string (if 1 < length (split_on (CHR ''_'') k)
                                                         then Str (split_on (CHR ''_'') k ! 1)
                                                         else Undefined))
                                     status []))]]))
         \<and> (\<forall>key habitName habitColor data data' n.
               parseInt key = Num (int n) \<and> n < 4294967295
               \<and> habit_row key habitName habitColor data = Inr data' \<longrightarrow>
               length data \<le> length data'
               \<and> (\<forall>i<length data. i \<noteq> n \<longrightarrow> data' ! i = data ! i))
         \<and> (\<forall>k status data data' n.
               parseInt (Str (hd (split_on (CHR ''_'') k))) = Num (int n) \<and> n < 4294967295
               \<and> habit_history_row (Str k) status data = Inr data' \<longrightarrow>
               length data \<le> length data'
               \<and> (\<forall>i<length data. i \<noteq> n \<longrightarrow> data' ! i = data ! i))"
proof -
  let ?hs = "[Obj [(''history'', Obj [])], Obj [(''history'', Obj [])],
              Obj [(''history'', Obj [])], Obj [(''history'', Obj [])],
              Obj [(''history'', Obj [])],
              Obj [(''name'', cell hm (parseCSVRow r) ''name''),
                   (''color'', cell hm (parseCSVRow r) ''color''), (''history'', Obj [])]]"
  have o1: "\<forall>r' \<in> set rs1. \<not> habit_kind hm r'" and o2: "\<forall>r' \<in> set rs2. \<not> habit_kind hm r'"
    using others by auto
  have parse: "parseCSVData now csvData =
      (case process_rows hm (rs1 @ r # rs2) (initial_data now) of
         Inl e \<Rightarrow> Inl e | Inr d \<Rightarrow> Inr (snapshot_of d))"
    using lines hm by (simp add: parseCSVData_def)
  have fresh: "habit_row (cell hm (parseCSVRow r) ''key'') (cell hm (parseCSVRow r) ''name'')
                 (cell hm (parseCSVRow r) ''color'') [] = Inr ?hs"
    using habit_row_beyond [of "cell hm (parseCSVRow r) ''key''" 5 "[]"] five
    by (simp add: placeholder_def numeral_eq_Suc)
  have steps: "habits_data d = ?hs" if run: "process_rows hm (rs1 @ r # rs2) (initial_data now) = Inr d" for d
  proof -
    from run obtain d1 d2 where
      d1: "process_rows hm rs1 (initial_data now) = Inr d1"
      and d2: "process_row hm r d1 = Inr d2"
      and d3: "process_rows hm rs2 d2 = Inr d"
      by (auto simp: process_rows_append split: sum.splits)
    have "habits_data d1 = []"
      using process_rows_other_habits [OF o1 d1] by (simp add: initial_data_def)
    with d2 fresh have "habits_data d2 = ?hs"
      by (auto simp: process_row_habit [OF row])
    then show ?thesis using process_rows_other_habits [OF o2 d3] by simp
  qed
  have A: "\<forall>snapshot. parseCSVData now csvData = Inr snapshot \<longrightarrow>
            member snapshot ''habits'' = Inr (Obj [(''data'', Str (JSON_stringify (Arr ?hs)))])"
  proof (intro allI impI)
    fix snapshot
    assume "parseCSVData now csvData = Inr snapshot"
    then obtain d where d: "process_rows hm (rs1 @ r # rs2) (initial_data now) = Inr d"
      and s: "snapshot = snapshot_of d"
      unfolding parse by (auto split: sum.splits)
    show "member snapshot ''habits'' = Inr (Obj [(''data'', Str (JSON_stringify (Arr ?hs)))])"
      unfolding s member_snapshot_habits steps [OF d] ..
  qed
  have B: "(\<forall>r' \<in> set (rs1 @ rs2). \<not> inherited_date hm r') \<longrightarrow>
              (\<exists>snapshot. parseCSVData now csvData = Inr snapshot)"
  proof
    assume benign: "\<forall>r' \<in> set (rs1 @ rs2). \<not> inherited_date hm r'"
    from process_rows_other_ok [of rs1 hm "initial_data now"] o1 benign initial_dated_arrays
    obtain d1 where d1: "process_rows hm rs1 (initial_data now) = Inr d1" "dated_arrays d1"
      by auto
    have "habits_data d1 = []"
      using process_rows_other_habits [OF o1 d1(1)] by (simp add: initial_data_def)
    then have d2: "process_row hm r d1 = Inr (d1\<lparr>habits_data := ?hs\<rparr>)"
      using fresh by (simp add: process_row_habit [OF row])
    have "dated_arrays (d1\<lparr>habits_data := ?hs\<rparr>)"
      using d1(2) by (simp add: dated_arrays_def)
    with process_rows_other_ok [of rs2 hm "d1\<lparr>habits_data := ?hs\<rparr>"] o2 benign
    obtain d where "process_rows hm rs2 (d1\<lparr>habits_data := ?hs\<rparr>) = Inr d" by auto
    with d1(1) d2 have "process_rows hm (rs1 @ r # rs2) (initial_data now) = Inr d"
      by (simp add: process_rows_append)
    then show "\<exists>snapshot. parseCSVData now csvData = Inr snapshot" by (simp add: parse)
  qed
  have C: "\<forall>key habitName habitColor data n.
               parseInt key = Num (int n) \<and> length data \<le> n \<and> n < 4294967295 \<longrightarrow>
               habit_row key habitName habitColor data =
                 Inr (data @ replicate (n - length data) (Obj [(''history'', Obj [])])
                      @ [Obj [(''name'', habitName), (''color'', habitColor), (''history'', Obj [])]])"
    using habit_row_beyond unfolding placeholder_def by blast
  have D: "\<forall>k status data n.
               parseInt (Str (hd (split_on (CHR ''_'') k))) = Num (int n) \<and> length data \<le> n
               \<and> n < 4294967295 \<longrightarrow>
               habit_history_row (Str k) status data =
                 Inr (data @ replicate (n - length data) (Obj [(''history'', Obj [])])
                      @ [Obj [(''history'',
                              Obj (js_assign (to_string (if 1 < length (split_on (CHR ''_'') k)
                                                         then Str (split_on (CHR ''_'') k ! 1)
                                                         else Undefined))
                                     status []))]])"
    using habit_history_row_beyond unfolding placeholder_def by blast
  have E: "\<forall>key habitName habitColor data data' n.
               parseInt key = Num (int n) \<and> n < 4294967295
               \<and> habit_row key habitName habitColor data = Inr data' \<longrightarrow>
               length data \<le> length data'
               \<and> (\<forall>i<length data. i \<noteq> n \<longrightarrow> data' ! i = data ! i)"
    using habit_row_kept by blast
  have F: "\<forall>k status data data' n.
               parseInt (Str (hd (split_on (CHR ''_'') k))) = Num (int n) \<and> n < 4294967295
               \<and> habit_history_row (Str k) status data = Inr data' \<longrightarrow>
               length data \<le> length data'
               \<and> (\<forall>i<length data. i \<noteq> n \<longrightarrow> data' ! i = data ! i)"
    using habit_history_row_kept by blast
  show ?thesis by (intro conjI A B C D E F)
qed

lemma habit_file_parse: "parseCSVData ''T'' habit_file = Inr habit_snapshot"
  unfolding habit_file_def header_line_def habit_snapshot_def by code_simp

theorem sparse_habit_padding_witness:
  \<open>split_lines habit_file = header_line # [''water,goal,2000,,,,,,,,,''] @ ''habit,5,,,,,,,Read,#4CAF50,,'' # []
   \<and> \<not> habit_kind (build_headerMap (parseCSVRow header_line)) ''water,goal,2000,,,,,,,,,''
   \<and> \<not> row_is_blank ''habit,5,,,,,,,Read,#4CAF50,,''
   \<and> cell (build_headerMap (parseCSVRow header_line)) (parseCSVRow ''habit,5,,,,,,,Read,#4CAF50,,'')
        ''data_type'' = Str ''habit''
   \<and> parseInt (cell (build_headerMap (parseCSVRow header_line))
                  (parseCSVRow ''habit,5,,,,,,,Read,#4CAF50,,'') ''key'') = Num 5
   \<and> parseCSVData ''T'' habit_file = Inr habit_snapshot
   \<and> member habit_snapshot ''habits'' =
       Inr (Obj [(''data'',
          Str (JSON_stringify
                 (Arr [Obj [(''history'', Obj [])], Obj [(''history'', Obj [])],
                       Obj [(''history'', Obj [])], Obj [(''history'', Obj [])],
                       Obj [(''history'', Obj [])],
                       Obj [(''name'', Str ''Read''), (''color'', Str ''#4CAF50''),
                            (''history'', Obj [])]])))])
   \<and> JSON_stringify
        (Arr [Obj [(''history'', Obj [])], Obj [(''history'', Obj [])],
              Obj [(''history'', Obj [])], Obj [(''history'', Obj [])],
              Obj [(''history'', Obj [])],
              Obj [(''name'', Str ''Read''), (''color'', Str ''#4CAF50''), (''history'', Obj [])]])
       = ''[{"history":{}},{"history":{}},{"history":{}},{"history":{}},{"history":{}},''
          @ ''{"name":"Read","color":"#4CAF50","history":{}}]''
   \<and> JSON_parse (''[{"history":{}},{"history":{}},{"history":{}},{"history":{}},{"history":{}},''
                  @ ''{"name":"Read","color":"#4CAF50","history":{}}]'')
       = Inr (Arr [Obj [(''history'', Obj [])], Obj [(''history'', Obj [])],
                   Obj [(''history'', Obj [])], Obj [(''history'', Obj [])],
                   Obj [(''history'', Obj [])],
                   Obj [(''name'', Str ''Read''), (''color'', Str ''#4CAF50''),
                        (''history'', Obj [])]])
   \<and> parseInt (Str (hd (split_on (CHR ''_'') ''2_2024-01-01''))) = Num (int 2)
   \<and> habit_history_row (Str ''2_2024-01-01'') (Str ''completed'')
        [Obj [(''name'', Str ''Run''), (''color'', Str ''#2196F3''), (''history'', Obj [])]]
       = Inr [Obj [(''name'', Str ''Run''), (''color'', Str ''#2196F3''), (''history'', Obj [])],
              Obj [(''history'', Obj [])],
              Obj [(''history'', Obj [(''2024-01-01'', Str ''completed'')])]]\<close>
proof -
  let ?hm = "build_headerMap (parseCSVRow header_line)"
  let ?r = "''habit,5,,,,,,,Read,#4CAF50,,''"
  let ?run = "Obj [(''name'', Str ''Run''), (''color'', Str ''#2196F3''), (''history'', Obj [])]"
  have 1: "split_lines habit_file = header_line # [''water,goal,2000,,,,,,,,,''] @ ?r # []"
    by code_simp
  have 2: "\<forall>r' \<in> set ([''water,goal,2000,,,,,,,,,''] @ []). \<not> habit_kind ?hm r'"
    by code_simp
  have 3: "\<not> row_is_blank ?r" by code_simp
  have 4: "cell ?hm (parseCSVRow ?r) ''data_type'' = Str ''habit''" by code_simp
  have 5: "parseInt (cell ?hm (parseCSVRow ?r) ''key'') = Num 5" by code_simp
  have 7: "cell ?hm (parseCSVRow ?r) ''name'' = Str ''Read''"
          "cell ?hm (parseCSVRow ?r) ''color'' = Str ''#4CAF50''"
    by code_simp+
  have 8: "parseInt (Str (hd (split_on (CHR ''_'') ''2_2024-01-01''))) = Num (int 2)"
    by code_simp
  have 9: "to_string (if 1 < length (split_on (CHR ''_'') ''2_2024-01-01'')
                      then Str (split_on (CHR ''_'') ''2_2024-01-01'' ! 1) else Undefined)
             = ''2024-01-01''"
    by code_simp
  have 10: \<open>JSON_stringify
        (Arr [Obj [(''history'', Obj [])], Obj [(''history'', Obj [])],
              Obj [(''history'', Obj [])], Obj [(''history'', Obj [])],
              Obj [(''history'', Obj [])],
              Obj [(''name'', Str ''Read''), (''color'', Str ''#4CAF50''), (''history'', Obj [])]])
       = ''[{"history":{}},{"history":{}},{"history":{}},{"history":{}},{"history":{}},''
          @ ''{"name":"Read","color":"#4CAF50","history":{}}]''\<close>
    by code_simp
  have 14: \<open>JSON_parse (''[{"history":{}},{"history":{}},{"history":{}},{"history":{}},{"history":{}},''
                  @ ''{"name":"Read","color":"#4CAF50","history":{}}]'')
       = Inr (Arr [Obj [(''history'', Obj [])], Obj [(''history'', Obj [])],
                   Obj [(''history'', Obj [])], Obj [(''history'', Obj [])],
                   Obj [(''history'', Obj [])],
                   Obj [(''name'', Str ''Read''), (''color'', Str ''#4CAF50''),
                        (''history'', Obj [])]])\<close>
    by code_simp
  note T = sparse_habit_padding [OF 1 refl 2 3 4 5, of "''T''"]
  have s: "parseCSVData ''T'' habit_file = Inr habit_snapshot" by (rule habit_file_parse)
  have 11: "member habit_snapshot ''habits'' =
       Inr (Obj [(''data'',
          Str (JSON_stringify
                 (Arr [Obj [(''history'', Obj [])], Obj [(''history'', Obj [])],
                       Obj [(''history'', Obj [])], Obj [(''history'', Obj [])],
                       Obj [(''history'', Obj [])],
                       Obj [(''name'', Str ''Read''), (''color'', Str ''#4CAF50''),
                            (''history'', Obj [])]])))])"
    using conjunct1 [OF T [unfolded 7], rule_format, OF s] .
  have "habit_history_row (Str ''2_2024-01-01'') (Str ''completed'') [?run]
          = Inr ([?run] @ replicate (2 - length [?run]) (Obj [(''history'', Obj [])])
                  @ [Obj [(''history'',
                       Obj (js_assign (to_string (if 1 < length (split_on (CHR ''_'') ''2_2024-01-01'')
                                                  then Str (split_on (CHR ''_'') ''2_2024-01-01'' ! 1)
                                                  else Undefined))
                              (Str ''completed'') []))]])"
    using conjunct1 [OF conjunct2 [OF conjunct2 [OF conjunct2 [OF T]]], rule_format,
            of "''2_2024-01-01''" 2 "[?run]" "Str ''completed''"] 8
    by simp
  then have 12: "habit_history_row (Str ''2_2024-01-01'') (Str ''completed'') [?run]
       = Inr [?run, Obj [(''history'', Obj [])],
              Obj [(''history'', Obj [(''2024-01-01'', Str ''completed'')])]]"
    unfolding 9 by (simp add: js_assign_def)
  have 13: "\<not> habit_kind ?hm ''water,goal,2000,,,,,,,,,''" using 2 by simp
  show ?thesis by (intro conjI 1 13 3 4 5 s 11 10 14 8 12)
qed


section \<open>Decimal numerals\<close>

lemma of_char_digit_char: "d < 10 \<Longrightarrow> (of_char (digit_char d) :: nat) = 48 + d"
  by (simp add: digit_char_def)

lemma is_digit_iff: "is_digit c \<longleftrightarrow> 48 \<le> (of_char c :: nat) \<and> (of_char c :: nat) \<le> 57"
  by (simp add: is_digit_def less_eq_char_def)

lemma is_digit_digit_char: "d < 10 \<Longrightarrow> is_digit (digit_char d)"
  by (simp add: is_digit_iff of_char_digit_char)






lemma string_of_nat_digits: "list_all is_digit (string_of_nat n)"
  by (induction n rule: string_of_nat.induct)
     (subst string_of_nat.simps, simp add: is_digit_digit_char)

lemma string_of_nat_nonempty: "string_of_nat n \<noteq> []"
  by (subst string_of_nat.simps) simp






section \<open>JSON: strings\<close>













section \<open>JSON: numbers\<close>


lemma hd_string_of_nat_digit: "is_digit (hd (string_of_nat n))"
  using string_of_nat_digits [of n] string_of_nat_nonempty [of n]
  by (cases "string_of_nat n") auto






section \<open>JSON: reading back what was written\<close>












lemma value_end_simps [simp]:
  "value_end (comma # r)" "value_end (CHR '']'' # r)" "value_end (CHR ''}'' # r)" "value_end []"
  by (simp_all add: value_end_def)















section \<open>JSON: what the parser returns\<close>



















section \<open>Cleanup: trimming a history\<close>



lemma within_capacity_setItem: "within_capacity w \<Longrightarrow> within_capacity (snd (setItem k v w))"
  by (simp add: setItem_def within_capacity_def Let_def)












lemma within_capacity_setItem_pair:
  "within_capacity w \<Longrightarrow> setItem k v w = (r, w') \<Longrightarrow> within_capacity w'"
  using within_capacity_setItem [of w k v] by simp

lemma within_capacity_cleanup_key:
  "within_capacity (fst wc) \<Longrightarrow> within_capacity (fst (cleanup_key ios key wc))"
  by (auto simp: cleanup_key_def cleanup_standard_def cleanup_habits_data_def Let_def
                 within_capacity_setItem
           split: option.splits sum.splits jsval.splits prod.splits
           dest: within_capacity_setItem_pair)


lemma fold_cleanup_key_invariant:
  assumes "within_capacity (fst wc)"
  shows "within_capacity (fst (fold (cleanup_key ios) ks wc))"
  using assms by (induction ks arbitrary: wc) (simp_all add: within_capacity_cleanup_key)



section \<open>Cleanup: the habits\<close>










section \<open>Cleanup: what is kept\<close>








section \<open>Cleanup: the most recent dates of every history\<close>














section \<open>Lines and cells of the exported text\<close>

















lemma string_of_nat_set: "c \<in> set (string_of_nat n) \<Longrightarrow> is_digit c"
  using string_of_nat_digits [of n] by (simp add: list_all_iff)


lemma string_of_nat_last: "is_digit (last (string_of_nat n))"
  using string_of_nat_set [of "last (string_of_nat n)" n] string_of_nat_nonempty [of n] by simp













lemma cell_safe_empty [simp]: "cell_safe []"
  by (simp add: cell_safe_def)







lemma escapeCSV_empty [simp]: "escapeCSV (Str []) = []"
  by (simp add: escapeCSV_def)


section \<open>Histories written and read back\<close>
































section \<open>Workout states and counters written and read back\<close>











section \<open>Habits written and read back\<close>
















section \<open>Export, then import\<close>































end
